theory Spec2Isabelle
  imports Complex_Main "HOL-Library.Monad_Syntax"
begin

section \<open>JavaScript numbers\<close>

text \<open>
  The program computes with JavaScript numbers. The model keeps the values that decide
  the control flow of the program (\<open>=== 0\<close>, \<open>isNaN\<close>, truthiness) and the special
  values a quotient by zero or a square root of a negative number produce: a number is a
  real, one of the two infinities, or NaN.

  Two things are left out. Rounding: finite arithmetic is exact here, so a quantity that
  cancels to zero here can be a small residue in the program (\<open>3 * (1 / 5) - 0.6\<close> is
  not \<open>0\<close> there). The sign of a zero: a quotient by zero is taken by \<open>+0\<close>, and so is
  \<open>Math.atan2\<close> at a zero argument, where the program has the opposite sign for \<open>-0\<close>.
  The concrete inputs below are chosen so that the program divides by no negative zero
  on its way to the values stated for them, and so that these values are exact in the
  program as well, or differ from the program's in the last digits only (a value with a
  square root, \<open>pi\<close> or a trigonometric function in it).
\<close>

datatype jsnum = Fin real | PInf | NInf | NaN

fun js_neg :: "jsnum \<Rightarrow> jsnum" where
  "js_neg (Fin x) = Fin (- x)"
| "js_neg PInf = NInf"
| "js_neg NInf = PInf"
| "js_neg NaN = NaN"

fun js_add :: "jsnum \<Rightarrow> jsnum \<Rightarrow> jsnum" where
  "js_add (Fin x) (Fin y) = Fin (x + y)"
| "js_add NaN b = NaN"
| "js_add a NaN = NaN"
| "js_add PInf NInf = NaN"
| "js_add NInf PInf = NaN"
| "js_add PInf b = PInf"
| "js_add a PInf = PInf"
| "js_add NInf b = NInf"
| "js_add a NInf = NInf"

definition js_sub :: "jsnum \<Rightarrow> jsnum \<Rightarrow> jsnum" where
  "js_sub a b = js_add a (js_neg b)"

text \<open>The sign of a number that is not NaN: \<open>-1\<close>, \<open>0\<close> or \<open>1\<close>.\<close>

fun js_sign :: "jsnum \<Rightarrow> real" where
  "js_sign (Fin x) = sgn x"
| "js_sign PInf = 1"
| "js_sign NInf = - 1"
| "js_sign NaN = 0"

definition signed_inf :: "real \<Rightarrow> jsnum" where
  "signed_inf s = (if s = 0 then NaN else if 0 < s then PInf else NInf)"

fun js_mul :: "jsnum \<Rightarrow> jsnum \<Rightarrow> jsnum" where
  "js_mul (Fin x) (Fin y) = Fin (x * y)"
| "js_mul NaN b = NaN"
| "js_mul a NaN = NaN"
| "js_mul a b = signed_inf (js_sign a * js_sign b)"

fun js_div :: "jsnum \<Rightarrow> jsnum \<Rightarrow> jsnum" where
  "js_div (Fin x) (Fin y) = (if y = 0 then signed_inf (sgn x) else Fin (x / y))"
| "js_div NaN b = NaN"
| "js_div a NaN = NaN"
| "js_div (Fin x) b = Fin 0"
| "js_div a (Fin y) = signed_inf (js_sign a * (if y < 0 then - 1 else 1))"
| "js_div a b = NaN"

text \<open>\<open>a < b\<close>: false as soon as one side is NaN.\<close>

fun js_lt :: "jsnum \<Rightarrow> jsnum \<Rightarrow> bool" where
  "js_lt (Fin x) (Fin y) = (x < y)"
| "js_lt NaN b = False"
| "js_lt a NaN = False"
| "js_lt a PInf = (a \<noteq> PInf)"
| "js_lt NInf b = (b \<noteq> NInf)"
| "js_lt a b = False"

text \<open>\<open>Math.max\<close> of two numbers, \<open>isNaN\<close>, and the truthiness of a number in a condition.\<close>

definition js_max :: "jsnum \<Rightarrow> jsnum \<Rightarrow> jsnum" where
  "js_max a b = (if a = NaN \<or> b = NaN then NaN else if js_lt a b then b else a)"

definition isNaN :: "jsnum \<Rightarrow> bool" where
  "isNaN a = (a = NaN)"

definition truthy :: "jsnum \<Rightarrow> bool" where
  "truthy a = (a \<noteq> NaN \<and> a \<noteq> Fin 0)"

fun js_sqrt :: "jsnum \<Rightarrow> jsnum" where
  "js_sqrt (Fin x) = (if x < 0 then NaN else Fin (sqrt x))"
| "js_sqrt PInf = PInf"
| "js_sqrt NInf = NaN"
| "js_sqrt NaN = NaN"

text \<open>\<open>Math.pow(x, 2)\<close>.\<close>

definition js_pow2 :: "jsnum \<Rightarrow> jsnum" where
  "js_pow2 a = js_mul a a"

fun js_sin :: "jsnum \<Rightarrow> jsnum" where
  "js_sin (Fin x) = Fin (sin x)"
| "js_sin a = NaN"

fun js_cos :: "jsnum \<Rightarrow> jsnum" where
  "js_cos (Fin x) = Fin (cos x)"
| "js_cos a = NaN"

fun js_atan :: "jsnum \<Rightarrow> jsnum" where
  "js_atan (Fin x) = Fin (arctan x)"
| "js_atan PInf = Fin (pi / 2)"
| "js_atan NInf = Fin (- pi / 2)"
| "js_atan NaN = NaN"

fun js_atan2 :: "jsnum \<Rightarrow> jsnum \<Rightarrow> jsnum" where
  "js_atan2 (Fin y) (Fin x) =
     (if 0 < x then Fin (arctan (y / x))
      else if x < 0 then (if 0 \<le> y then Fin (arctan (y / x) + pi) else Fin (arctan (y / x) - pi))
      else if 0 < y then Fin (pi / 2)
      else if y < 0 then Fin (- pi / 2)
      else Fin 0)"
| "js_atan2 NaN x = NaN"
| "js_atan2 y NaN = NaN"
| "js_atan2 (Fin y) PInf = Fin 0"
| "js_atan2 (Fin y) NInf = (if 0 \<le> y then Fin pi else Fin (- pi))"
| "js_atan2 PInf (Fin x) = Fin (pi / 2)"
| "js_atan2 NInf (Fin x) = Fin (- pi / 2)"
| "js_atan2 PInf PInf = Fin (pi / 4)"
| "js_atan2 PInf NInf = Fin (3 * pi / 4)"
| "js_atan2 NInf PInf = Fin (- pi / 4)"
| "js_atan2 NInf NInf = Fin (- 3 * pi / 4)"

text \<open>
  Reading \<open>xs[i]\<close>: beyond the end of the array the value is \<open>undefined\<close>, which every use
  in this program (arithmetic, \<open>isNaN\<close>, a comparison with \<open>0\<close>) treats as NaN. Writing
  \<open>xs[i] = v\<close> beyond the end extends the array, and the holes it leaves read as
  \<open>undefined\<close> too.
\<close>

definition jsget :: "jsnum list \<Rightarrow> nat \<Rightarrow> jsnum" where
  "jsget xs i = (if i < length xs then xs ! i else NaN)"

definition jsset :: "jsnum list \<Rightarrow> nat \<Rightarrow> jsnum \<Rightarrow> jsnum list" where
  "jsset xs i v = (if i < length xs then xs[i := v] else xs @ replicate (i - length xs) NaN @ [v])"

section \<open>linear-algebra.js: class Matrix\<close>

text \<open>
  A \<open>Matrix\<close> object holds one field, the array of its rows. An exception (the
  \<open>TypeError\<close> of reading a property of \<open>undefined\<close> or \<open>null\<close>) is the result \<open>None\<close>.
\<close>

type_synonym matrix = "jsnum list list"

definition fromSize :: "nat \<Rightarrow> nat \<Rightarrow> jsnum \<Rightarrow> matrix" where
  "fromSize width height v = replicate height (replicate width v)"

definition identity :: "nat \<Rightarrow> matrix" where
  "identity sz = fold (\<lambda>i m. m[i := (m ! i)[i := Fin 1]]) [0..<sz] (fromSize sz sz (Fin 0))"

text \<open>The getters \<open>m\<close> (never fails) and \<open>n\<close> (reads \<open>this.matrix[0].length\<close>).\<close>

definition matrix_m :: "matrix \<Rightarrow> nat" where
  "matrix_m M = length M"

definition matrix_n :: "matrix \<Rightarrow> nat option" where
  "matrix_n M = (case M of [] \<Rightarrow> None | r # rs \<Rightarrow> Some (length r))"

definition transpose_m :: "matrix \<Rightarrow> matrix option" where
  "transpose_m M =
     do {
       let n = matrix_m M;
       m \<leftarrow> matrix_n M;
       Some (map (\<lambda>y. map (\<lambda>x. jsget (M ! x) y) [0..<n]) [0..<m])
     }"

text \<open>
  \<open>transformVector\<close>: \<open>result\<close> starts as \<open>m\<close> zeros; the bound of the inner loop reads
  \<open>this.n\<close> only when the outer loop runs, that is when the matrix has a row.
\<close>

definition transformVector :: "matrix \<Rightarrow> jsnum list \<Rightarrow> jsnum list" where
  "transformVector M v =
     fold (\<lambda>i result.
            fold (\<lambda>j result. result[i := js_add (result ! i) (js_mul (jsget (M ! i) j) (v ! j))])
              [0..<min (length v) (length (M ! 0))] result)
       [0..<matrix_m M] (replicate (matrix_m M) (Fin 0))"

text \<open>
  \<open>rotation3D\<close>: five writes into a 3 by 3 matrix of zeros; an axis beyond 2 reads a row
  that does not exist.
\<close>

definition mset2 :: "matrix \<Rightarrow> nat \<Rightarrow> nat \<Rightarrow> jsnum \<Rightarrow> matrix" where
  "mset2 m i j v = m[i := jsset (m ! i) j v]"

definition rotation3D :: "nat \<Rightarrow> jsnum \<Rightarrow> matrix option" where
  "rotation3D axis radians =
     (if 3 \<le> axis then None
      else
        let m = fromSize 3 3 (Fin 0);
            s = js_sin radians;
            c = js_cos radians;
            m = mset2 m axis axis (Fin 1);
            m = mset2 m ((axis + 1) mod 3) ((axis + 1) mod 3) c;
            m = mset2 m ((axis + 2) mod 3) ((axis + 2) mod 3) c;
            m = mset2 m ((axis + 2) mod 3) ((axis + 1) mod 3) s;
            m = mset2 m ((axis + 1) mod 3) ((axis + 2) mod 3) (js_neg s)
        in Some m)"

text \<open>
  \<open>multiplication\<close>: for each column \<open>i\<close> of the right matrix, \<open>vector\<close> starts as \<open>n\<close>
  holes, takes \<open>matrix2.matrix[j][i]\<close> for \<open>j\<close> below the height of the LEFT matrix (a
  row the right matrix does not have is \<open>undefined\<close>, and reading its element throws), is
  transformed by the left matrix, and is stored as column \<open>i\<close> of the result.
\<close>

fun fill_vector :: "matrix \<Rightarrow> nat \<Rightarrow> nat list \<Rightarrow> jsnum list \<Rightarrow> jsnum list option" where
  "fill_vector B i [] vector = Some vector"
| "fill_vector B i (j # js) vector =
     (if j < length B then fill_vector B i js (jsset vector j (jsget (B ! j) i)) else None)"

fun multiplication_loop :: "matrix \<Rightarrow> matrix \<Rightarrow> nat \<Rightarrow> nat \<Rightarrow> nat list \<Rightarrow> matrix \<Rightarrow> matrix option" where
  "multiplication_loop A B m n [] result = Some result"
| "multiplication_loop A B m n (i # is) result =
     do {
       vector \<leftarrow> fill_vector B i [0..<m] (replicate n NaN);
       let vector = transformVector A vector;
       let result = fold (\<lambda>j result. mset2 result j i (vector ! j)) [0..<m] result;
       multiplication_loop A B m n is result
     }"

definition multiplication :: "matrix \<Rightarrow> matrix \<Rightarrow> matrix option" where
  "multiplication matrix1 matrix2 =
     do {
       let m = length matrix1;
       n \<leftarrow> matrix_n matrix2;
       multiplication_loop matrix1 matrix2 m n [0..<n] (fromSize n m (Fin 0))
     }"

text \<open>The row operations mutate the matrix; the model returns the new matrix.\<close>

definition copy :: "matrix \<Rightarrow> matrix" where
  "copy M = map (\<lambda>row. row) M"

definition multiplyRow :: "matrix \<Rightarrow> nat \<Rightarrow> jsnum \<Rightarrow> matrix" where
  "multiplyRow M row scalar = M[row := map (\<lambda>x. js_mul x scalar) (M ! row)]"

definition multiplyAndAdd :: "matrix \<Rightarrow> nat \<Rightarrow> nat \<Rightarrow> jsnum \<Rightarrow> matrix" where
  "multiplyAndAdd M from to scalar =
     M[to := map (\<lambda>(i, val). js_add (js_mul val scalar) (jsget (M ! to) i)) (enumerate 0 (M ! from))]"

text \<open>\<open>swap\<close> exchanges the first \<open>n\<close> elements of two different rows, one at a time.\<close>

definition swap :: "matrix \<Rightarrow> nat \<Rightarrow> nat \<Rightarrow> matrix" where
  "swap M rowIndex1 rowIndex2 =
     (let (row1, row2) =
            fold (\<lambda>i (row1, row2). (jsset row1 i (jsget row2 i), jsset row2 i (jsget row1 i)))
              [0..<length (M ! 0)] (M ! rowIndex1, M ! rowIndex2)
      in M[rowIndex1 := row1, rowIndex2 := row2])"

text \<open>
  \<open>inverse\<close>. \<open>Null\<close> is the value \<open>null\<close>. The state of the two passes is the pair of the
  working copy and the matrix that started as the identity. The search for a pivot looks
  at the DIAGONAL entries \<open>old.matrix[i][i]\<close> from row \<open>col\<close> on, and when it finds none
  the pass goes on with the zero pivot.
\<close>

datatype 'a nullable = Null | NonNull 'a

definition find_pivot :: "matrix \<Rightarrow> nat \<Rightarrow> nat \<Rightarrow> nat option" where
  "find_pivot old col cols = find (\<lambda>i. jsget (old ! i) i \<noteq> Fin 0) [col..<cols]"

definition pivot_swap :: "nat \<Rightarrow> nat \<Rightarrow> matrix \<times> matrix \<Rightarrow> matrix \<times> matrix" where
  "pivot_swap col cols s =
     (case s of (old, newMatrix) \<Rightarrow>
        if jsget (old ! col) col = Fin 0 then
          (case find_pivot old col cols of
             None \<Rightarrow> (old, newMatrix)
           | Some i \<Rightarrow> (swap old i col, swap newMatrix i col))
        else (old, newMatrix))"

definition eliminate :: "nat \<Rightarrow> nat \<Rightarrow> matrix \<times> matrix \<Rightarrow> matrix \<times> matrix" where
  "eliminate col row s =
     (case s of (old, newMatrix) \<Rightarrow>
        let rowValue = jsget (old ! row) col
        in (multiplyAndAdd old col row (js_neg rowValue),
            multiplyAndAdd newMatrix col row (js_neg rowValue)))"

definition forward_step :: "nat \<Rightarrow> nat \<Rightarrow> nat \<Rightarrow> matrix \<times> matrix \<Rightarrow> matrix \<times> matrix" where
  "forward_step cols rows col s =
     (case pivot_swap col cols s of (old, newMatrix) \<Rightarrow>
        let v = jsget (old ! col) col;
            old = multiplyRow old col (js_div (Fin 1) v);
            newMatrix = multiplyRow newMatrix col (js_div (Fin 1) v)
        in fold (eliminate col) [col + 1..<rows] (old, newMatrix))"

definition backward_step :: "nat \<Rightarrow> matrix \<times> matrix \<Rightarrow> matrix \<times> matrix" where
  "backward_step col s = fold (eliminate col) (rev [0..<col]) s"

definition inverse_m :: "matrix \<Rightarrow> matrix nullable option" where
  "inverse_m M =
     do {
       cols \<leftarrow> matrix_n M;
       let rows = matrix_m M;
       if cols \<noteq> rows then Some Null
       else
         let s = (copy M, identity cols);
             s = fold (forward_step cols rows) [0..<cols] s;
             s = fold backward_step (rev [0..<cols]) s
         in Some (NonNull (snd s))
     }"

section \<open>linear-algebra.js: class Vector\<close>

text \<open>
  \<open>addition\<close> and \<open>subtraction\<close> run over the longer of the two arrays and replace a
  component that is NaN (or missing) by zero.
\<close>

definition addition :: "jsnum list \<Rightarrow> jsnum list \<Rightarrow> jsnum list" where
  "addition vector1 vector2 =
     map (\<lambda>i. let term1 = jsget vector1 i;
                   term2 = jsget vector2 i;
                   term1 = (if isNaN term1 then Fin 0 else term1);
                   term2 = (if isNaN term2 then Fin 0 else term2)
               in js_add term1 term2)
       [0..<max (length vector1) (length vector2)]"

definition subtraction :: "jsnum list \<Rightarrow> jsnum list \<Rightarrow> jsnum list" where
  "subtraction vector1 vector2 =
     map (\<lambda>i. let term1 = jsget vector1 i;
                   term2 = jsget vector2 i;
                   term1 = (if isNaN term1 then Fin 0 else term1);
                   term2 = (if isNaN term2 then Fin 0 else term2)
               in js_sub term1 term2)
       [0..<max (length vector1) (length vector2)]"

definition scalarMultiplication :: "jsnum list \<Rightarrow> jsnum \<Rightarrow> jsnum list" where
  "scalarMultiplication vector scalar = map (\<lambda>x. js_mul x scalar) vector"

text \<open>\<open>normalize\<close>: \<open>reduce\<close> without a start value throws on the empty array.\<close>

definition normalize_v :: "jsnum list \<Rightarrow> jsnum list option" where
  "normalize_v vector =
     (case map js_pow2 vector of
        [] \<Rightarrow> None
      | x # xs \<Rightarrow>
          let c = js_div (Fin 1) (js_sqrt (foldl (\<lambda>prev curr. js_add prev curr) x xs))
          in Some (map (\<lambda>x. js_mul x c) vector))"

definition crossProduct :: "jsnum list \<Rightarrow> jsnum list \<Rightarrow> jsnum list" where
  "crossProduct vector1 vector2 =
     map (\<lambda>i. js_sub (js_mul (jsget vector1 ((i + 1) mod 3)) (jsget vector2 ((i + 2) mod 3)))
                     (js_mul (jsget vector1 ((i + 2) mod 3)) (jsget vector2 ((i + 1) mod 3))))
       [0..<3]"

section \<open>The calibration pipeline\<close>

record corner =
  uvCenter :: "jsnum list"
  point1 :: "jsnum list"
  point2 :: "jsnum list"

definition pointFromIndex :: "corner \<Rightarrow> nat \<Rightarrow> jsnum list" where
  "pointFromIndex c index = (if index = 0 then point1 c else point2 c)"

text \<open>
  An axis label is one of the six values of the two selection boxes, a sign followed by a
  letter: \<open>axis[0] + "1"\<close> converts to \<open>1\<close> or \<open>-1\<close>, and \<open>axes[axis[1]]\<close> is the index of
  the letter.
\<close>

datatype axis_sign = Plus | Minus

datatype axis_letter = AxisX | AxisY | AxisZ

type_synonym axis_label = "axis_sign \<times> axis_letter"

fun sign_number :: "axis_sign \<Rightarrow> jsnum" where
  "sign_number Plus = Fin 1"
| "sign_number Minus = Fin (- 1)"

fun axes :: "axis_letter \<Rightarrow> nat" where
  "axes AxisX = 0"
| "axes AxisY = 1"
| "axes AxisZ = 2"

text \<open>
  What \<open>calculate\<close> reads: the two global corners and the global origin, the two axis
  labels, the two sensor dimensions (as the numbers \<open>Math.max\<close> converts the input texts
  to) and the distance to the origin (as the number \<open>Number\<close> converts its text to).
\<close>

record inputs =
  corners0 :: corner
  corners1 :: corner
  origin :: "jsnum list"
  axis1 :: axis_label
  axis2 :: axis_label
  sensor_width :: jsnum
  sensor_height :: jsnum
  distance_to_origin :: jsnum

text \<open>Using \<open>null\<close> where a \<open>Matrix\<close> object is read throws.\<close>

fun deref :: "'a nullable \<Rightarrow> 'a option" where
  "deref Null = None"
| "deref (NonNull x) = Some x"

text \<open>\<open>m[i]\<close> for a row that a later \<open>[j]\<close> reads: a missing row makes that read throw.\<close>

definition mrow :: "matrix \<Rightarrow> nat \<Rightarrow> jsnum list option" where
  "mrow m i = (if i < length m then Some (m ! i) else None)"

definition melem :: "matrix \<Rightarrow> nat \<Rightarrow> nat \<Rightarrow> jsnum option" where
  "melem m i j = do { r \<leftarrow> mrow m i; Some (jsget r j) }"

text \<open>One round of the loop of \<open>getVanishingPoints\<close>, for the edge family \<open>i\<close>.\<close>

definition vanishingPoint :: "corner \<Rightarrow> corner \<Rightarrow> nat \<Rightarrow> jsnum list option" where
  "vanishingPoint c0 c1 i =
     (let o1 = uvCenter c0;
          o2 = uvCenter c1;
          p1 = subtraction o1 (pointFromIndex c0 i);
          p2 = subtraction o2 (pointFromIndex c1 i);
          m = [[jsget p1 0, js_neg (jsget p2 0)],
               [jsget p1 1, js_neg (jsget p2 1)]];
          v = [js_sub (jsget o2 0) (jsget o1 0),
               js_sub (jsget o2 1) (jsget o1 1)]
      in do {
           inverse' \<leftarrow> inverse_m m;
           mi \<leftarrow> deref inverse';
           let c = transformVector mi v;
           Some (addition o1 (scalarMultiplication p1 (jsget c 0)))
         })"

definition getVanishingPoints :: "corner \<Rightarrow> corner \<Rightarrow> jsnum list list option" where
  "getVanishingPoints c0 c1 =
     do {
       vp0 \<leftarrow> vanishingPoint c0 c1 0;
       vp1 \<leftarrow> vanishingPoint c0 c1 1;
       Some [vp0, vp1]
     }"

text \<open>
  The functions below read the fields of the global \<open>calcResults\<close> that \<open>calculate\<close> has
  set before it calls them; the model passes these fields as arguments. \<open>v\<close> is the array
  of the two vanishing points.
\<close>

definition getFocalLength :: "jsnum list list \<Rightarrow> jsnum \<Rightarrow> jsnum" where
  "getFocalLength v sensorLength =
     js_mul
       (js_div
          (js_sqrt (js_sub (js_mul (js_neg (jsget (v ! 0) 0)) (jsget (v ! 1) 0))
                           (js_mul (jsget (v ! 0) 1) (jsget (v ! 1) 1))))
          (Fin 2))
       sensorLength"

definition getWorldTransform ::
  "axis_label \<Rightarrow> axis_label \<Rightarrow> jsnum list list \<Rightarrow> jsnum \<Rightarrow> jsnum \<Rightarrow> matrix option" where
  "getWorldTransform a1 a2 v sensorLength focalLength =
     (let distance = js_mul (js_div focalLength sensorLength) (Fin 2);
          vp1 = v ! 0;
          vp2 = v ! 1
      in do {
           vector1 \<leftarrow> normalize_v [jsget vp1 0, jsget vp1 1, js_neg distance];
           vector2 \<leftarrow> normalize_v [jsget vp2 0, jsget vp2 1, js_neg distance];
           let vector1 = scalarMultiplication vector1 (sign_number (fst a1));
           let vector2 = scalarMultiplication vector2 (sign_number (fst a2));
           let vectors = [[], [], []];
           let vectors = vectors[axes (snd a1) := vector1];
           let vectors = vectors[axes (snd a2) := vector2];
           let vectors =
             (case find (\<lambda>i. length (vectors ! i) = 0) [0..<3] of
                None \<Rightarrow> vectors
              | Some i \<Rightarrow>
                  vectors[i := crossProduct (vectors ! ((i + 1) mod 3)) (vectors ! ((i + 2) mod 3))]);
           transpose_m vectors
         })"

definition projectPointLocalInverse :: "jsnum \<Rightarrow> jsnum \<Rightarrow> jsnum list \<Rightarrow> jsnum \<Rightarrow> jsnum list" where
  "projectPointLocalInverse sensorLength focalLength uv distance =
     (let c = js_mul (js_div (js_div sensorLength focalLength) (Fin 2)) distance;
          v = scalarMultiplication uv c
      in [jsget v 0, jsget v 1, js_neg distance])"

definition getLocation :: "jsnum \<Rightarrow> jsnum list \<Rightarrow> jsnum \<Rightarrow> jsnum \<Rightarrow> matrix \<Rightarrow> jsnum list option" where
  "getLocation distance orig sensorLength focalLength worldTransform =
     do {
       unit \<leftarrow> normalize_v (projectPointLocalInverse sensorLength focalLength orig (Fin 1));
       let point = scalarMultiplication unit distance;
       inverse' \<leftarrow> inverse_m worldTransform;
       m \<leftarrow> deref inverse';
       Some (scalarMultiplication (transformVector m point) (Fin (- 1)))
     }"

text \<open>
  \<open>getEulerRotation\<close>. The two candidates for beta are built from \<open>Math.sin\<close> of the
  entry \<open>m[2][0]\<close>.
\<close>

definition gammas :: "matrix \<Rightarrow> jsnum list option" where
  "gammas m =
     do {
       m10 \<leftarrow> melem m 1 0;
       m00 \<leftarrow> melem m 0 0;
       let gamma0 = js_atan (js_div m10 m00);
       Some [gamma0, js_add gamma0 (Fin pi)]
     }"

definition betas :: "matrix \<Rightarrow> jsnum list option" where
  "betas m =
     do {
       m20 \<leftarrow> melem m 2 0;
       let beta0 = js_neg (js_sin m20);
       Some [beta0, js_sub (Fin pi) beta0]
     }"

text \<open>The sum of the squares of the differences between \<open>combined\<close> and \<open>m\<close>.\<close>

fun squared_error :: "matrix \<Rightarrow> (nat \<times> jsnum list) list \<Rightarrow> jsnum \<Rightarrow> jsnum option" where
  "squared_error m [] err = Some err"
| "squared_error m ((i, row) # rest) err =
     (if row = [] then squared_error m rest err
      else do {
        mi \<leftarrow> mrow m i;
        squared_error m rest
          (fold (\<lambda>(j, element) err. js_add err (js_pow2 (js_sub element (jsget mi j))))
             (enumerate 0 row) err)
      })"

definition candidate :: "matrix \<Rightarrow> jsnum \<Rightarrow> jsnum \<Rightarrow> (jsnum list \<times> jsnum) option" where
  "candidate inverse' gamma beta =
     do {
       gammaMat \<leftarrow> rotation3D 2 gamma;
       betaMat \<leftarrow> rotation3D 1 beta;
       betaInv \<leftarrow> inverse_m betaMat \<bind> deref;
       gammaInv \<leftarrow> inverse_m gammaMat \<bind> deref;
       inner \<leftarrow> multiplication gammaInv inverse';
       mat \<leftarrow> multiplication betaInv inner;
       mat21 \<leftarrow> melem mat 2 1;
       mat11 \<leftarrow> melem mat 1 1;
       let alpha = js_atan2 mat21 mat11;
       alphaMat \<leftarrow> rotation3D 0 alpha;
       ba \<leftarrow> multiplication betaMat alphaMat;
       combined \<leftarrow> multiplication gammaMat ba;
       err \<leftarrow> squared_error inverse' (enumerate 0 combined) (Fin 0);
       Some ([alpha, beta, gamma], err)
     }"

definition getEulerRotation :: "matrix \<Rightarrow> jsnum list option" where
  "getEulerRotation worldTransform =
     do {
       inverse' \<leftarrow> inverse_m worldTransform \<bind> deref;
       gs \<leftarrow> gammas inverse';
       bs \<leftarrow> betas inverse';
       a00 \<leftarrow> candidate inverse' (gs ! 0) (bs ! 0);
       a01 \<leftarrow> candidate inverse' (gs ! 0) (bs ! 1);
       a10 \<leftarrow> candidate inverse' (gs ! 1) (bs ! 0);
       a11 \<leftarrow> candidate inverse' (gs ! 1) (bs ! 1);
       Some (fst (foldl (\<lambda>prev curr. if js_lt (snd prev) (snd curr) then prev else curr)
                    a00 [a01, a10, a11]))
     }"

text \<open>
  \<open>getBlender4x4Matrix\<close>, up to the matrix it serialises; the text it makes of the
  matrix is not modelled.
\<close>

definition getBlender4x4Matrix :: "matrix \<Rightarrow> jsnum list \<Rightarrow> matrix option" where
  "getBlender4x4Matrix worldTransform loc =
     do {
       inverse' \<leftarrow> inverse_m worldTransform \<bind> deref;
       m \<leftarrow> transpose_m inverse';
       let m = m @ [loc];
       m \<leftarrow> transpose_m m;
       Some (m @ [[Fin 0, Fin 0, Fin 0, Fin 1]])
     }"

text \<open>
  The results live in the object that the script declares with \<open>let calcResults = {}\<close>,
  once, when it is loaded. \<open>calculate\<close> begins with \<open>window.calcResults = {}\<close>, which
  creates a property of the global object and leaves the \<open>let\<close> binding alone; every
  \<open>calcResults.field\<close> of the script reads and writes the \<open>let\<close> binding. So the object
  is a state that lasts from one call of \<open>calculate\<close> to the next, and a field that a call
  does not assign keeps the value an earlier call gave it.

  A field of the pose that no call has assigned yet is \<open>None\<close>. The last field is not
  part of the object: it is the \<open>hidden\<close> attribute of the panel of results, which
  \<open>calculate\<close> sets as well.
\<close>

record calcResults =
  vanishingPoints :: "jsnum list list"
  sensorLength :: jsnum
  focalLength :: jsnum
  fov :: jsnum
  worldTransform :: "matrix option"
  location :: "jsnum list option"
  eulerRotation :: "jsnum list option"
  blender4x4Matrix :: "matrix option"
  results_hidden :: bool

text \<open>
  The object \<open>{}\<close> of \<open>let calcResults = {}\<close>, before the first call. Its first four
  fields are \<open>undefined\<close> then; \<open>calculate\<close> assigns each of them before anything reads
  it, and the model writes them as no points and NaN.
\<close>

definition calcResults_init :: calcResults where
  "calcResults_init =
     \<lparr>vanishingPoints = [], sensorLength = NaN, focalLength = NaN, fov = NaN,
      worldTransform = None, location = None, eulerRotation = None,
      blender4x4Matrix = None, results_hidden = True\<rparr>"

text \<open>
  \<open>calculate\<close>, from the state \<open>old\<close> that the earlier calls left. \<open>None\<close> is a call that
  throws.
\<close>

definition calculate :: "inputs \<Rightarrow> calcResults \<Rightarrow> calcResults option" where
  "calculate inp old =
     do {
       let r = old\<lparr>results_hidden := True\<rparr>;
       vps \<leftarrow> getVanishingPoints (corners0 inp) (corners1 inp);
       let r = r\<lparr>vanishingPoints := vps\<rparr>;
       let r = r\<lparr>sensorLength := js_max (sensor_width inp) (sensor_height inp)\<rparr>;
       let r = r\<lparr>focalLength := getFocalLength (vanishingPoints r) (sensorLength r)\<rparr>;
       let r = r\<lparr>fov := js_mul (js_div (js_mul (Fin 2)
                  (js_atan (js_div (js_div (sensorLength r) (Fin 2)) (focalLength r)))) (Fin pi)) (Fin 180)\<rparr>;
       if truthy (focalLength r) \<and> snd (axis1 inp) \<noteq> snd (axis2 inp) then
         do {
           let r = r\<lparr>results_hidden := False\<rparr>;
           wt \<leftarrow> getWorldTransform (axis1 inp) (axis2 inp) (vanishingPoints r) (sensorLength r) (focalLength r);
           let r = r\<lparr>worldTransform := Some wt\<rparr>;
           loc \<leftarrow> getLocation (distance_to_origin inp) (origin inp) (sensorLength r) (focalLength r) wt;
           let r = r\<lparr>location := Some loc\<rparr>;
           angles \<leftarrow> getEulerRotation wt;
           let r = r\<lparr>eulerRotation := Some (map (\<lambda>x. js_mul (js_div x (Fin pi)) (Fin 180)) angles)\<rparr>;
           b \<leftarrow> getBlender4x4Matrix wt loc;
           Some (r\<lparr>blender4x4Matrix := Some b\<rparr>)
         }
       else
         Some r
     }"

section \<open>Notions the properties are stated with\<close>

text \<open>The sum \<open>f 0 + \<dots> + f (k - 1)\<close>, added up from zero from the left.\<close>

primrec js_sum :: "(nat \<Rightarrow> jsnum) \<Rightarrow> nat \<Rightarrow> jsnum" where
  "js_sum f 0 = Fin 0"
| "js_sum f (Suc k) = js_add (js_sum f k) (f k)"

text \<open>The product of an \<open>m\<close> by \<open>k\<close> matrix and a \<open>k\<close> by \<open>n\<close> matrix, by its textbook formula.\<close>

definition matrix_product :: "matrix \<Rightarrow> matrix \<Rightarrow> nat \<Rightarrow> nat \<Rightarrow> nat \<Rightarrow> matrix" where
  "matrix_product A B m k n =
     map (\<lambda>i. map (\<lambda>j. js_sum (\<lambda>l. js_mul (A ! i ! l) (B ! l ! j)) k) [0..<n]) [0..<m]"

text \<open>The determinant of a 3 by 3 matrix, expanded along its first row.\<close>

definition det3 :: "matrix \<Rightarrow> jsnum" where
  "det3 M =
     js_add
       (js_sub
          (js_mul (M ! 0 ! 0) (js_sub (js_mul (M ! 1 ! 1) (M ! 2 ! 2)) (js_mul (M ! 1 ! 2) (M ! 2 ! 1))))
          (js_mul (M ! 0 ! 1) (js_sub (js_mul (M ! 1 ! 0) (M ! 2 ! 2)) (js_mul (M ! 1 ! 2) (M ! 2 ! 0)))))
       (js_mul (M ! 0 ! 2) (js_sub (js_mul (M ! 1 ! 0) (M ! 2 ! 1)) (js_mul (M ! 1 ! 1) (M ! 2 ! 0))))"

text \<open>The sum of three products, as \<open>transformVector\<close> adds it up.\<close>

definition dot3 :: "jsnum \<Rightarrow> jsnum \<Rightarrow> jsnum \<Rightarrow> jsnum \<Rightarrow> jsnum \<Rightarrow> jsnum \<Rightarrow> jsnum" where
  "dot3 a x b y c z = js_add (js_add (js_add (Fin 0) (js_mul a x)) (js_mul b y)) (js_mul c z)"

text \<open>Both matrices of the state of \<open>inverse\<close> have \<open>n\<close> rows.\<close>

definition both_rows :: "nat \<Rightarrow> matrix \<times> matrix \<Rightarrow> bool" where
  "both_rows n s = (length (fst s) = n \<and> length (snd s) = n)"

text \<open>
  What the two passes of \<open>inverse\<close> leave in the second matrix when the first is
  \<open>[[a, b], [c, d]]\<close>, the second \<open>[[e, f], [g, h]]\<close>, and no rows are swapped (shown below
  as \<open>passes2\<close>).
\<close>

definition gj2 :: "jsnum \<Rightarrow> jsnum \<Rightarrow> jsnum \<Rightarrow> jsnum \<Rightarrow> jsnum \<Rightarrow> jsnum \<Rightarrow> jsnum \<Rightarrow> jsnum \<Rightarrow> matrix" where
  "gj2 a b c d e f g h =
     (let s = js_div (Fin 1) a;
          b1 = js_mul b s; e1 = js_mul e s; f1 = js_mul f s;
          d1 = js_add (js_mul b1 (js_neg c)) d;
          g1 = js_add (js_mul e1 (js_neg c)) g;
          h1 = js_add (js_mul f1 (js_neg c)) h;
          t = js_div (Fin 1) d1;
          g2 = js_mul g1 t; h2 = js_mul h1 t
      in [[js_add (js_mul g2 (js_neg b1)) e1, js_add (js_mul h2 (js_neg b1)) f1], [g2, h2]])"

text \<open>The condition under which \<open>calculate\<close> computes the pose.\<close>

definition pose_gate :: "inputs \<Rightarrow> calcResults \<Rightarrow> bool" where
  "pose_gate inp r = (truthy (focalLength r) \<and> snd (axis1 inp) \<noteq> snd (axis2 inp))"

text \<open>
  An input in general position: the edges of the first family meet at \<open>(-1, 0)\<close>, those of
  the second at \<open>(4, 3)\<close>.
\<close>

definition fixture :: inputs where
  "fixture =
     \<lparr>corners0 = \<lparr>uvCenter = [Fin 0, Fin 1], point1 = [Fin 1, Fin 2], point2 = [Fin (- 4), Fin (- 1)]\<rparr>,
      corners1 = \<lparr>uvCenter = [Fin 0, Fin (- 1)], point1 = [Fin 1, Fin (- 2)], point2 = [Fin (- 4), Fin (- 5)]\<rparr>,
      origin = [Fin 0, Fin 0],
      axis1 = (Plus, AxisX), axis2 = (Plus, AxisY),
      sensor_width = Fin 36, sensor_height = Fin 24,
      distance_to_origin = Fin 10\<rparr>"

text \<open>An input whose vanishing points \<open>(1, 0)\<close> and \<open>(0, 1)\<close> are orthogonal.\<close>

definition orthogonal_input :: inputs where
  "orthogonal_input =
     \<lparr>corners0 = \<lparr>uvCenter = [Fin 0, Fin 0], point1 = [Fin (- 1), Fin 0], point2 = [Fin 0, Fin (- 1)]\<rparr>,
      corners1 = \<lparr>uvCenter = [Fin 2, Fin 2], point1 = [Fin 3, Fin 4], point2 = [Fin 4, Fin 3]\<rparr>,
      origin = [Fin 0, Fin 0],
      axis1 = (Plus, AxisX), axis2 = (Plus, AxisY),
      sensor_width = Fin 36, sensor_height = Fin 24,
      distance_to_origin = Fin 10\<rparr>"

text \<open>
  Two corners whose edges of the first family have the directions \<open>(0, 1)\<close> and \<open>(1, 0)\<close>.
\<close>

definition pivot_corner0 :: corner where
  "pivot_corner0 = \<lparr>uvCenter = [Fin 0, Fin 0], point1 = [Fin 0, Fin (- 1)], point2 = [Fin (- 1), Fin 0]\<rparr>"

definition pivot_corner1 :: corner where
  "pivot_corner1 = \<lparr>uvCenter = [Fin 1, Fin 1], point1 = [Fin 0, Fin 1], point2 = [Fin 1, Fin 0]\<rparr>"


section \<open>The loops of \<open>transformVector\<close>\<close>

lemma inner_loop:
  "i < length r \<Longrightarrow>
   fold (\<lambda>j r. r[i := js_add (r ! i) (g j)]) [0..<k] r =
   r[i := fold (\<lambda>j acc. js_add acc (g j)) [0..<k] (r ! i)]"
  by (induction k) simp_all

lemma fold_js_sum: "fold (\<lambda>j acc. js_add acc (g j)) [0..<k] (Fin 0) = js_sum g k"
  by (induction k) simp_all

lemma outer_loop:
  "k \<le> m \<Longrightarrow>
   fold (\<lambda>i r. fold (\<lambda>j r. r[i := js_add (r ! i) (g i j)]) [0..<n] r) [0..<k] (replicate m (Fin 0)) =
   map (\<lambda>i. if i < k then js_sum (g i) n else Fin 0) [0..<m]"
proof (induction k)
  case 0
  then show ?case by (simp add: map_replicate_trivial)
next
  case (Suc k)
  then show ?case
    by (auto simp: inner_loop fold_js_sum list_eq_iff_nth_eq nth_list_update)
qed

lemma transformVector_closed:
  "transformVector M v =
   map (\<lambda>i. js_sum (\<lambda>j. js_mul (jsget (M ! i) j) (v ! j)) (min (length v) (length (M ! 0))))
     [0..<length M]"
  unfolding transformVector_def matrix_m_def
  by (simp add: outer_loop)

lemma js_sum_cong: "(\<And>j. j < k \<Longrightarrow> f j = g j) \<Longrightarrow> js_sum f k = js_sum g k"
  by (induction k) simp_all

text \<open>
  C10. For a matrix \<open>M\<close> with \<open>m\<close> rows of length \<open>n\<close> and a vector \<open>v\<close> of any length,
  \<open>transformVector\<close> returns a vector of length \<open>m\<close> whose component \<open>i\<close> is the sum of
  \<open>M[i][j] * v[j]\<close> for \<open>j\<close> below the smaller of the length of \<open>v\<close> and \<open>n\<close>: a short
  vector counts as extended by zeros, the components of a long one beyond \<open>n\<close> are
  ignored. The function has no failing path (its model is a total function without an
  error result).
\<close>

theorem transformVector_components:
  assumes "\<forall>row \<in> set M. length row = n"
  shows "length (transformVector M v) = length M \<and>
         (\<forall>i < length M. transformVector M v ! i =
            js_sum (\<lambda>j. js_mul (M ! i ! j) (v ! j)) (min (length v) n))"
proof -
  have n: "length (M ! i) = n" if "i < length M" for i
    using assms that by simp
  show ?thesis
  proof (intro conjI allI impI)
    show "length (transformVector M v) = length M"
      by (simp add: transformVector_closed)
  next
    fix i assume i: "i < length M"
    then have "0 < length M" by auto
    then have n0: "length (M ! 0) = n" by (rule n)
    have "transformVector M v ! i =
          js_sum (\<lambda>j. js_mul (jsget (M ! i) j) (v ! j)) (min (length v) (length (M ! 0)))"
      using i by (simp add: transformVector_closed)
    also have "\<dots> = js_sum (\<lambda>j. js_mul (M ! i ! j) (v ! j)) (min (length v) n)"
      unfolding n0 by (rule js_sum_cong) (simp add: jsget_def n [OF i])
    finally show "transformVector M v ! i =
          js_sum (\<lambda>j. js_mul (M ! i ! j) (v ! j)) (min (length v) n)" .
  qed
qed

theorem transformVector_components_witness:
  "length (transformVector [[Fin 1, Fin 2], [Fin 3, Fin 4]] [Fin 1, Fin 1, Fin 7]) = 2 \<and>
   transformVector [[Fin 1, Fin 2], [Fin 3, Fin 4]] [Fin 1, Fin 1, Fin 7] ! 1 = Fin 7 \<and>
   transformVector [[Fin 1, Fin 2], [Fin 3, Fin 4]] [Fin 1] ! 0 = Fin 1"
  using transformVector_components [of "[[Fin 1, Fin 2], [Fin 3, Fin 4]]" 2 "[Fin 1, Fin 1, Fin 7]"]
        transformVector_components [of "[[Fin 1, Fin 2], [Fin 3, Fin 4]]" 2 "[Fin 1]"]
  by (simp add: numeral_2_eq_2)

section \<open>Small cases, evaluated\<close>

lemma upt3: "[0..<3] = [0, 1, 2]"
  by (simp add: upt_conv_Cons)

lemma upt2: "[0..<2] = [0, 1]"
  by (simp add: upt_conv_Cons)

lemma rep3: "replicate 3 x = [x, x, x]"
  by (simp add: numeral_3_eq_3)

lemma rep2: "replicate 2 x = [x, x]"
  by (simp add: numeral_2_eq_2)

lemma js_sum3: "js_sum f 3 = js_add (js_add (js_add (Fin 0) (f 0)) (f 1)) (f 2)"
  by (simp add: numeral_3_eq_3 numeral_2_eq_2)

lemma js_sum2: "js_sum f 2 = js_add (js_add (Fin 0) (f 0)) (f 1)"
  by (simp add: numeral_2_eq_2)

lemma jsget_simps:
  "jsget (x # xs) 0 = x" "jsget (x # xs) (Suc n) = jsget xs n" "jsget [] n = NaN"
  by (simp_all add: jsget_def)

lemma tr3: "transpose_m [[a, b, c], [d, e, f], [g, h, i]] = Some [[a, d, g], [b, e, h], [c, f, i]]"
  by (simp add: transpose_m_def matrix_m_def matrix_n_def upt3 jsget_def)

lemma id3: "identity 3 = [[Fin 1, Fin 0, Fin 0], [Fin 0, Fin 1, Fin 0], [Fin 0, Fin 0, Fin 1]]"
  by (simp add: identity_def fromSize_def upt3 rep3)

lemma id2: "identity 2 = [[Fin 1, Fin 0], [Fin 0, Fin 1]]"
  by (simp add: identity_def fromSize_def upt2 rep2)

lemma tv3: "transformVector [[a, b, c], [d, e, f], [g, h, i]] [x, y, z] =
   [dot3 a x b y c z, dot3 d x e y f z, dot3 g x h y i z]"
  by (simp add: transformVector_closed upt3 js_sum3 jsget_def dot3_def)

lemma tv2: "transformVector [[a, b], [c, d]] [x, y] =
   [js_add (js_add (Fin 0) (js_mul a x)) (js_mul b y),
    js_add (js_add (Fin 0) (js_mul c x)) (js_mul d y)]"
  by (simp add: transformVector_closed upt2 js_sum2 jsget_def)

lemma add2: "addition [Fin a, Fin b] [x, y] =
   [js_add (Fin a) (if x = NaN then Fin 0 else x), js_add (Fin b) (if y = NaN then Fin 0 else y)]"
  by (simp add: addition_def upt2 jsget_def isNaN_def Let_def)

section \<open>\<open>multiplication\<close>\<close>

text \<open>
  The loops of \<open>multiplication\<close> in closed form. Whenever the left matrix is not taller
  than the right one, the entry in row \<open>r\<close> and column \<open>j\<close> of the result is the sum that
  \<open>transformVector\<close> forms from row \<open>r\<close> of the left matrix and the vector copied from
  column \<open>j\<close> of the right matrix, of which only the first \<open>m\<close> entries (\<open>m\<close> the height of
  the left matrix) are copied.
\<close>

lemma fill_vector_append:
  "fill_vector B i (xs @ ys) v = fill_vector B i xs v \<bind> fill_vector B i ys"
  by (induction xs arbitrary: v) simp_all

lemma fill_vector_closed:
  "m \<le> length B \<Longrightarrow>
   fill_vector B i [0..<m] (replicate n NaN) =
   Some (map (\<lambda>l. if l < m then jsget (B ! l) i else NaN) [0..<max n m])"
proof (induction m)
  case 0
  then show ?case by (simp add: map_replicate_trivial)
next
  case (Suc m)
  let ?w = "map (\<lambda>l. if l < m then jsget (B ! l) i else NaN) [0..<max n m]"
  have "jsset ?w m (jsget (B ! m) i) =
        map (\<lambda>l. if l < Suc m then jsget (B ! l) i else NaN) [0..<max n (Suc m)]"
  proof (cases "m < n")
    case True
    then have "max n m = n" "max n (Suc m) = n" by auto
    then show ?thesis using True
      by (auto simp: jsset_def nth_list_update intro!: nth_equalityI)
  next
    case False
    then have "max n m = m" "max n (Suc m) = Suc m" by auto
    then show ?thesis using False by (simp add: jsset_def)
  qed
  then show ?case using Suc by (simp add: fill_vector_append)
qed

lemma store_column:
  assumes "length result = m" "k \<le> m"
  shows "fold (\<lambda>j result. mset2 result j i (w ! j)) [0..<k] result =
         map (\<lambda>r. if r < k then jsset (result ! r) i (w ! r) else result ! r) [0..<m]"
  using assms(2)
proof (induction k)
  case 0
  have "map (\<lambda>r. result ! r) [0..<length result] = result" by (rule map_nth)
  then show ?case using assms(1) by simp
next
  case (Suc k)
  then have IH: "fold (\<lambda>j result. mset2 result j i (w ! j)) [0..<k] result =
         map (\<lambda>r. if r < k then jsset (result ! r) i (w ! r) else result ! r) [0..<m]"
    and k: "k < m" by simp_all
  let ?f = "\<lambda>j result. mset2 result j i (w ! j)"
  let ?r = "map (\<lambda>r. if r < k then jsset (result ! r) i (w ! r) else result ! r) [0..<m]"
  have "fold ?f [0..<Suc k] result = mset2 (fold ?f [0..<k] result) k i (w ! k)" by simp
  also have "\<dots> = mset2 ?r k i (w ! k)" by (simp only: IH)
  also have "\<dots> = map (\<lambda>r. if r < Suc k then jsset (result ! r) i (w ! r) else result ! r) [0..<m]"
    using k by (auto simp: mset2_def nth_list_update less_Suc_eq intro!: nth_equalityI)
  finally show ?case .
qed

lemma multiplication_loop_closed:
  assumes "m \<le> length B"
  shows "length result = m \<Longrightarrow>
         multiplication_loop A B m n cs result =
         Some (map (\<lambda>r. fold (\<lambda>j row. jsset row j
                     (transformVector A (map (\<lambda>l. if l < m then jsget (B ! l) j else NaN) [0..<max n m]) ! r))
                   cs (result ! r)) [0..<m])"
proof (induction cs arbitrary: result)
  case Nil
  have "map (\<lambda>r. result ! r) [0..<length result] = result" by (rule map_nth)
  then show ?case using Nil by simp
next
  case (Cons c cs)
  let ?E = "\<lambda>j. transformVector A (map (\<lambda>l. if l < m then jsget (B ! l) j else NaN) [0..<max n m])"
  let ?result = "map (\<lambda>r. if r < m then jsset (result ! r) c (?E c ! r) else result ! r) [0..<m]"
  have "multiplication_loop A B m n (c # cs) result = multiplication_loop A B m n cs ?result"
    using Cons.prems by (simp add: fill_vector_closed [OF assms] Let_def store_column)
  also have "\<dots> = Some (map (\<lambda>r. fold (\<lambda>j row. jsset row j (?E j ! r)) cs (?result ! r)) [0..<m])"
    by (rule Cons.IH) simp
  also have "\<dots> = Some (map (\<lambda>r. fold (\<lambda>j row. jsset row j (?E j ! r)) (c # cs) (result ! r)) [0..<m])"
    by simp
  finally show ?case .
qed

lemma fill_row:
  "k \<le> n \<Longrightarrow>
   fold (\<lambda>j row. jsset row j (f j)) [0..<k] (replicate n z) =
   map (\<lambda>j. if j < k then f j else z) [0..<n]"
proof (induction k)
  case 0
  then show ?case by (simp add: map_replicate_trivial)
next
  case (Suc k)
  then show ?case
    by (auto simp: jsset_def nth_list_update less_Suc_eq intro!: nth_equalityI)
qed

lemma multiplication_closed:
  assumes "B \<noteq> []" "length A \<le> length B"
  shows "multiplication A B =
         Some (map (\<lambda>r. map (\<lambda>j.
                 js_sum (\<lambda>l. js_mul (jsget (A ! r) l) (if l < length A then jsget (B ! l) j else NaN))
                   (min (max (length (B ! 0)) (length A)) (length (A ! 0))))
               [0..<length (B ! 0)]) [0..<length A])"
proof -
  let ?m = "length A" and ?n = "length (B ! 0)"
  let ?E = "\<lambda>j. transformVector A (map (\<lambda>l. if l < ?m then jsget (B ! l) j else NaN) [0..<max ?n ?m])"
  have n: "matrix_n B = Some ?n" using assms(1) by (cases B) (simp_all add: matrix_n_def)
  have "multiplication A B = multiplication_loop A B ?m ?n [0..<?n] (fromSize ?n ?m (Fin 0))"
    by (simp add: multiplication_def n Let_def)
  also have "\<dots> = Some (map (\<lambda>r. fold (\<lambda>j row. jsset row j (?E j ! r)) [0..<?n]
                              (fromSize ?n ?m (Fin 0) ! r)) [0..<?m])"
    by (rule multiplication_loop_closed [OF assms(2)]) (simp add: fromSize_def)
  also have "\<dots> = Some (map (\<lambda>r. map (\<lambda>j. ?E j ! r) [0..<?n]) [0..<?m])"
    by (simp add: fromSize_def fill_row)
  also have "\<dots> = Some (map (\<lambda>r. map (\<lambda>j.
                 js_sum (\<lambda>l. js_mul (jsget (A ! r) l) (if l < ?m then jsget (B ! l) j else NaN))
                   (min (max ?n ?m) (length (A ! 0))))
               [0..<?n]) [0..<?m])"
    by (auto simp: transformVector_closed intro!: js_sum_cong)
  finally show ?thesis .
qed

text \<open>When the left matrix is as tall as the right one, the result is the textbook product.\<close>

lemma multiplication_square_left:
  assumes "B \<noteq> []" "length A = length B" "\<forall>row \<in> set A. length row = length B"
    and "\<forall>row \<in> set B. length row = n"
  shows "multiplication A B = Some (matrix_product A B (length A) (length B) n)"
proof -
  have n: "length (B ! 0) = n" using assms(1,4) by (cases B) auto
  have A0: "length (A ! 0) = length B" using assms(1-3) by (cases A) auto
  have rowA: "length (A ! r) = length B" if "r < length A" for r using assms(3) that by simp
  have rowB: "length (B ! l) = n" if "l < length B" for l using assms(4) that by simp
  have le: "length A \<le> length B" using assms(2) by simp
  show ?thesis
    unfolding multiplication_closed [OF assms(1) le] matrix_product_def n A0
    using assms(2) by (auto simp: jsget_def rowA rowB intro!: js_sum_cong)
qed

text \<open>When the left matrix is taller than the right one, the copy of a column throws.\<close>

lemma multiplication_throws:
  assumes "B \<noteq> []" "0 < length (B ! 0)" "length B < length A"
  shows "multiplication A B = None"
proof -
  let ?n = "length (B ! 0)"
  have n: "matrix_n B = Some ?n" using assms(1) by (cases B) (simp_all add: matrix_n_def)
  have "[0..<length A] = [0..<length B] @ (length B # [Suc (length B)..<length A])"
    using assms(3) upt_add_eq_append [of 0 "length B" "length A - length B"]
    by (simp add: upt_conv_Cons)
  then have "fill_vector B 0 [0..<length A] (replicate ?n NaN) = None"
    by (simp add: fill_vector_append fill_vector_closed)
  moreover have "[0..<?n] = 0 # [Suc 0..<?n]" using assms(2) by (simp add: upt_conv_Cons)
  ultimately show ?thesis
    by (simp add: multiplication_def n Let_def)
qed

lemma mult3:
  "multiplication [[a, b, c], [d, e, f], [g, h, i]] [[a', b', c'], [d', e', f'], [g', h', i']] =
   Some [[dot3 a a' b d' c g', dot3 a b' b e' c h', dot3 a c' b f' c i'],
         [dot3 d a' e d' f g', dot3 d b' e e' f h', dot3 d c' e f' f i'],
         [dot3 g a' h d' i g', dot3 g b' h e' i h', dot3 g c' h f' i i']]"
  by (simp add: multiplication_def matrix_n_def upt3 rep3 tv3 mset2_def jsset_def jsget_def fromSize_def)

text \<open>
  C9. The claim is that \<open>multiplication\<close> returns the textbook product also when the left
  matrix is not square. The loop that copies a column of the right matrix runs up to the
  height of the left matrix instead of the height of the right one: for the 1 by 2 matrix
  \<open>[[1, 1]]\<close> and the 2 by 1 matrix \<open>[[1], [1]]\<close> the result is \<open>[[1]]\<close>, and the product
  is \<open>[[2]]\<close>; in the other order the loop reads a row that the right matrix does not
  have and throws, and the product is \<open>[[1, 1], [1, 1]]\<close>.
\<close>

theorem multiplication_not_square:
  "multiplication [[Fin 1, Fin 1]] [[Fin 1], [Fin 1]] = Some [[Fin 1]] \<and>
   matrix_product [[Fin 1, Fin 1]] [[Fin 1], [Fin 1]] 1 2 1 = [[Fin 2]] \<and>
   multiplication [[Fin 1], [Fin 1]] [[Fin 1, Fin 1]] = None \<and>
   matrix_product [[Fin 1], [Fin 1]] [[Fin 1, Fin 1]] 2 1 2 = [[Fin 1, Fin 1], [Fin 1, Fin 1]]"
  by code_simp

section \<open>\<open>rotation3D\<close>\<close>

lemma rot0: "rotation3D 0 (Fin t) = Some [[Fin 1, Fin 0, Fin 0], [Fin 0, Fin (cos t), Fin (- sin t)], [Fin 0, Fin (sin t), Fin (cos t)]]"
  by (simp add: rotation3D_def fromSize_def mset2_def jsset_def rep3 Let_def)

lemma rot1: "rotation3D (Suc 0) (Fin t) = Some [[Fin (cos t), Fin 0, Fin (sin t)], [Fin 0, Fin 1, Fin 0], [Fin (- sin t), Fin 0, Fin (cos t)]]"
  by (simp add: rotation3D_def fromSize_def mset2_def jsset_def rep3 Let_def)

lemma rot2: "rotation3D 2 (Fin t) = Some [[Fin (cos t), Fin (- sin t), Fin 0], [Fin (sin t), Fin (cos t), Fin 0], [Fin 0, Fin 0, Fin 1]]"
  by (simp add: rotation3D_def fromSize_def mset2_def jsset_def rep3 Let_def)

lemma sc: "sin t * sin t + cos t * cos t = (1::real)" "cos t * cos t + sin t * sin t = (1::real)"
  using sin_cos_squared_add [of t] by (simp_all add: power2_eq_square add.commute)

text \<open>
  C8. For every axis among 0, 1, 2 and every real angle, the matrix that \<open>rotation3D\<close>
  returns is orthonormal: its product with its transpose, on either side, is the identity
  (its transpose is its inverse), and its determinant is \<open>1\<close>.
\<close>

theorem rotation3D_orthonormal:
  assumes "axis < 3"
  shows "\<exists>R Rt. rotation3D axis (Fin t) = Some R \<and> transpose_m R = Some Rt \<and>
           multiplication R Rt = Some (identity 3) \<and>
           multiplication Rt R = Some (identity 3) \<and>
           det3 R = Fin 1"
proof -
  from assms consider "axis = 0" | "axis = 1" | "axis = 2" by linarith
  then show ?thesis
  proof cases
    case 1
    then show ?thesis
      by (simp add: rot0 tr3 mult3 id3 dot3_def det3_def js_sub_def sc)
  next
    case 2
    then show ?thesis
      by (simp add: rot1 tr3 mult3 id3 dot3_def det3_def js_sub_def sc)
  next
    case 3
    then show ?thesis
      by (simp add: rot2 tr3 mult3 id3 dot3_def det3_def js_sub_def sc)
  qed
qed

text \<open>C8 at the axis 2 and the angle \<open>pi / 3\<close>.\<close>

theorem rotation3D_orthonormal_witness:
  "\<exists>R Rt. rotation3D 2 (Fin (pi / 3)) = Some R \<and> transpose_m R = Some Rt \<and>
           multiplication R Rt = Some (identity 3) \<and>
           multiplication Rt R = Some (identity 3) \<and>
           det3 R = Fin 1"
  using rotation3D_orthonormal [of 2 "pi / 3"] by simp

section \<open>\<open>inverse\<close>\<close>

lemma length_swap [simp]: "length (swap M i j) = length M"
  by (simp add: swap_def split: prod.splits)

lemma length_multiplyRow [simp]: "length (multiplyRow M r s) = length M"
  by (simp add: multiplyRow_def)

lemma length_multiplyAndAdd [simp]: "length (multiplyAndAdd M f t s) = length M"
  by (simp add: multiplyAndAdd_def)

lemma length_mset2 [simp]: "length (mset2 M i j v) = length M"
  by (simp add: mset2_def)

lemma both_rows_pivot_swap: "both_rows n s \<Longrightarrow> both_rows n (pivot_swap col cols s)"
  by (cases s) (simp add: both_rows_def pivot_swap_def split: option.splits)

lemma both_rows_eliminate: "both_rows n s \<Longrightarrow> both_rows n (eliminate col row s)"
  by (cases s) (simp add: both_rows_def eliminate_def Let_def)

lemma both_rows_fold:
  "(\<And>x s. both_rows n s \<Longrightarrow> both_rows n (f x s)) \<Longrightarrow> both_rows n s \<Longrightarrow> both_rows n (fold f xs s)"
  by (induction xs arbitrary: s) simp_all

lemma both_rows_forward_step: "both_rows n s \<Longrightarrow> both_rows n (forward_step cols rows col s)"
proof -
  assume s: "both_rows n s"
  obtain old new where p: "pivot_swap col cols s = (old, new)" by (cases "pivot_swap col cols s")
  from both_rows_pivot_swap [OF s, of col cols] p
  have "both_rows n (old, new)" by simp
  then have "both_rows n (multiplyRow old col x, multiplyRow new col y)" for x y
    by (simp add: both_rows_def)
  then show ?thesis
    unfolding forward_step_def p
    by (simp add: Let_def both_rows_fold both_rows_eliminate)
qed

lemma both_rows_backward_step: "both_rows n s \<Longrightarrow> both_rows n (backward_step col s)"
  unfolding backward_step_def by (rule both_rows_fold) (rule both_rows_eliminate)

lemma length_identity [simp]: "length (identity n) = n"
proof -
  have "length (fold (\<lambda>i m. m[i := (m ! i)[i := Fin 1]]) xs M) = length M" for xs and M :: matrix
    by (induction xs arbitrary: M) simp_all
  then show ?thesis by (simp add: identity_def fromSize_def)
qed

lemma inverse_m_square:
  assumes "matrix_n M = Some (length M)"
  shows "\<exists>N. inverse_m M = Some (NonNull N) \<and> length N = length M"
proof -
  let ?n = "length M"
  have 1: "both_rows ?n (copy M, identity ?n)" by (simp add: both_rows_def copy_def)
  have 2: "both_rows ?n (fold (forward_step ?n ?n) [0..<?n] (copy M, identity ?n))"
    by (rule both_rows_fold) (simp_all add: both_rows_forward_step 1)
  have "both_rows ?n (fold backward_step (rev [0..<?n])
               (fold (forward_step ?n ?n) [0..<?n] (copy M, identity ?n)))"
    by (rule both_rows_fold) (simp_all add: both_rows_backward_step 2)
  then show ?thesis
    using assms by (simp add: inverse_m_def matrix_m_def Let_def both_rows_def)
qed

text \<open>
  C1, as stated: the inverse of a singular square matrix is \<open>null\<close>. It is not: for
  \<open>[[1, 2], [2, 4]]\<close>, whose second column has no nonzero entry on or below the diagonal
  once the first column is eliminated, the result is a matrix of infinities, and for the
  zero matrix it is a matrix of NaN.
\<close>

theorem inverse_singular_not_null:
  "inverse_m [[Fin 1, Fin 2], [Fin 2, Fin 4]] = Some (NonNull [[PInf, NInf], [NInf, PInf]]) \<and>
   inverse_m [[Fin 0, Fin 0], [Fin 0, Fin 0]] = Some (NonNull [[NaN, NaN], [NaN, NaN]])"
  by code_simp

text \<open>
  C1, amended. \<open>inverse\<close> returns \<open>null\<close> exactly when the matrix has a row and is not
  square (the length of its first row differs from the number of its rows); it throws
  exactly when the matrix has no row; and for every square matrix, singular or not, it
  returns a matrix, with as many rows. The only test of \<open>inverse\<close> is the test of the
  shape: no entry of the matrix, and so no rounding of one, has a part in it.
\<close>

theorem inverse_null_iff_not_square:
  "(inverse_m M = Some Null \<longleftrightarrow> M \<noteq> [] \<and> length (M ! 0) \<noteq> length M) \<and>
   (inverse_m M = None \<longleftrightarrow> M = []) \<and>
   (M \<noteq> [] \<and> length (M ! 0) = length M \<longrightarrow>
      (\<exists>N. inverse_m M = Some (NonNull N) \<and> length N = length M))"
proof (cases M)
  case Nil
  then show ?thesis by (simp add: inverse_m_def matrix_n_def)
next
  case (Cons r rs)
  show ?thesis
  proof (cases "length r = length M")
    case True
    then have "matrix_n M = Some (length M)" using Cons by (simp add: matrix_n_def)
    from inverse_m_square [OF this] True Cons show ?thesis by auto
  next
    case False
    then have "inverse_m M = Some Null"
      using Cons by (simp add: inverse_m_def matrix_n_def matrix_m_def)
    with False Cons show ?thesis by simp
  qed
qed

text \<open>
  C1, amended, at a 2 by 3 matrix, at the empty matrix and at two square matrices, one
  regular and one singular.
\<close>

theorem inverse_null_iff_not_square_witness:
  "inverse_m [[Fin 1, Fin 2, Fin 3], [Fin 3, Fin 4, Fin 5]] = Some Null \<and>
   inverse_m [] = None \<and>
   (\<exists>N. inverse_m [[Fin 5, Fin (- 4)], [Fin 3, Fin (- 2)]] = Some (NonNull N) \<and> length N = 2) \<and>
   (\<exists>N. inverse_m [[Fin 1, Fin 2], [Fin 2, Fin 4]] = Some (NonNull N) \<and> length N = 2)"
  using inverse_null_iff_not_square [of "[[Fin 1, Fin 2, Fin 3], [Fin 3, Fin 4, Fin 5]]"]
    inverse_null_iff_not_square [of "[]"]
    inverse_null_iff_not_square [of "[[Fin 5, Fin (- 4)], [Fin 3, Fin (- 2)]]"]
    inverse_null_iff_not_square [of "[[Fin 1, Fin 2], [Fin 2, Fin 4]]"]
  by (simp add: numeral_2_eq_2)

subsection \<open>The two passes on a 2 by 2 matrix\<close>

lemma multiplyRow2:
  "multiplyRow [[a, b], [c, d]] 0 s = [[js_mul a s, js_mul b s], [c, d]]"
  "multiplyRow [[a, b], [c, d]] (Suc 0) s = [[a, b], [js_mul c s, js_mul d s]]"
  by (simp_all add: multiplyRow_def)

lemma multiplyAndAdd2:
  "multiplyAndAdd [[a, b], [c, d]] 0 (Suc 0) s = [[a, b], [js_add (js_mul a s) c, js_add (js_mul b s) d]]"
  "multiplyAndAdd [[a, b], [c, d]] (Suc 0) 0 s = [[js_add (js_mul c s) a, js_add (js_mul d s) b], [c, d]]"
  by (simp_all add: multiplyAndAdd_def jsget_def)

lemma swap2: "swap [[a, b], [c, d]] (Suc 0) 0 = [[c, d], [a, b]]"
  by (simp add: swap_def upt2 jsget_def jsset_def)

lemma id2': "identity (Suc (Suc 0)) = [[Fin 1, Fin 0], [Fin 0, Fin 1]]"
  using id2 by (simp add: numeral_2_eq_2)

lemma pivot_swap2_0:
  "pivot_swap 0 (Suc (Suc 0)) ([[a, b], [c, d]], [[e, f], [g, h]]) =
     (if a = Fin 0 \<and> d \<noteq> Fin 0 then ([[c, d], [a, b]], [[g, h], [e, f]])
      else ([[a, b], [c, d]], [[e, f], [g, h]]))"
  by (simp add: pivot_swap_def find_pivot_def jsget_def swap2 upt_conv_Cons)

lemma pivot_swap2_1:
  "pivot_swap (Suc 0) (Suc (Suc 0)) ([[a, b], [c, d]], [[e, f], [g, h]]) =
     ([[a, b], [c, d]], [[e, f], [g, h]])"
  by (simp add: pivot_swap_def find_pivot_def jsget_def upt_conv_Cons)

lemma eliminate2:
  "eliminate 0 (Suc 0) ([[a, b], [c, d]], [[e, f], [g, h]]) =
     ([[a, b], [js_add (js_mul a (js_neg c)) c, js_add (js_mul b (js_neg c)) d]],
      [[e, f], [js_add (js_mul e (js_neg c)) g, js_add (js_mul f (js_neg c)) h]])"
  "eliminate (Suc 0) 0 ([[a, b], [c, d]], [[e, f], [g, h]]) =
     ([[js_add (js_mul c (js_neg b)) a, js_add (js_mul d (js_neg b)) b], [c, d]],
      [[js_add (js_mul g (js_neg b)) e, js_add (js_mul h (js_neg b)) f], [g, h]])"
  by (simp_all add: eliminate_def multiplyAndAdd2 jsget_def Let_def)

lemma passes2:
  "snd (backward_step 0 (backward_step (Suc 0)
     (forward_step (Suc (Suc 0)) (Suc (Suc 0)) (Suc 0)
        (fold (eliminate 0) [Suc 0..<Suc (Suc 0)]
           (multiplyRow [[a, b], [c, d]] 0 (js_div (Fin 1) a),
            multiplyRow [[e, f], [g, h]] 0 (js_div (Fin 1) a)))))) =
   gj2 a b c d e f g h"
  by (simp add: forward_step_def backward_step_def pivot_swap2_1 multiplyRow2
      eliminate2 jsget_def Let_def gj2_def upt_conv_Cons)

lemma inverse_2x2:
  "inverse_m [[a, b], [c, d]] =
     Some (NonNull (if a = Fin 0 \<and> d \<noteq> Fin 0 then gj2 c d a b (Fin 0) (Fin 1) (Fin 1) (Fin 0)
                    else gj2 a b c d (Fin 1) (Fin 0) (Fin 0) (Fin 1)))"
proof -
  have "inverse_m [[a, b], [c, d]] =
        Some (NonNull (snd (backward_step 0 (backward_step (Suc 0)
          (forward_step (Suc (Suc 0)) (Suc (Suc 0)) (Suc 0)
             (forward_step (Suc (Suc 0)) (Suc (Suc 0)) 0
                ([[a, b], [c, d]], [[Fin 1, Fin 0], [Fin 0, Fin 1]])))))))"
    by (simp add: inverse_m_def matrix_n_def matrix_m_def copy_def id2' Let_def)
  also have "forward_step (Suc (Suc 0)) (Suc (Suc 0)) 0
                ([[a, b], [c, d]], [[Fin 1, Fin 0], [Fin 0, Fin 1]]) =
             (if a = Fin 0 \<and> d \<noteq> Fin 0
              then fold (eliminate 0) [Suc 0..<Suc (Suc 0)]
                     (multiplyRow [[c, d], [a, b]] 0 (js_div (Fin 1) c),
                      multiplyRow [[Fin 0, Fin 1], [Fin 1, Fin 0]] 0 (js_div (Fin 1) c))
              else fold (eliminate 0) [Suc 0..<Suc (Suc 0)]
                     (multiplyRow [[a, b], [c, d]] 0 (js_div (Fin 1) a),
                      multiplyRow [[Fin 1, Fin 0], [Fin 0, Fin 1]] 0 (js_div (Fin 1) a)))"
    unfolding forward_step_def pivot_swap2_0 by (simp add: jsget_def Let_def del: upt_Suc)
  finally show ?thesis
    by (simp add: passes2 del: upt_Suc)
qed

subsection \<open>Regular 2 by 2 matrices\<close>

lemma gj2_regular:
  assumes "a \<noteq> 0" "a * d - b * c \<noteq> 0"
  shows "gj2 (Fin a) (Fin b) (Fin c) (Fin d) (Fin 1) (Fin 0) (Fin 0) (Fin 1) =
         [[Fin (d / (a * d - b * c)), Fin (- b / (a * d - b * c))],
          [Fin (- c / (a * d - b * c)), Fin (a / (a * d - b * c))]]"
proof -
  have d1: "d - b * c / a \<noteq> 0" using assms by (simp add: field_simps)
  show ?thesis
    using assms d1 by (simp add: gj2_def Let_def) (simp add: field_simps)
qed

lemma gj2_swapped:
  assumes "b \<noteq> 0" "c \<noteq> 0"
  shows "gj2 (Fin c) (Fin d) (Fin 0) (Fin b) (Fin 0) (Fin 1) (Fin 1) (Fin 0) =
         [[Fin (- d / (b * c)), Fin (1 / c)], [Fin (1 / b), Fin 0]]"
  using assms by (simp add: gj2_def Let_def)

lemma inverse_2x2_regular:
  assumes "a * d - b * c \<noteq> 0" "a \<noteq> 0 \<or> d \<noteq> 0"
  shows "inverse_m [[Fin a, Fin b], [Fin c, Fin d]] =
         Some (NonNull [[Fin (d / (a * d - b * c)), Fin (- b / (a * d - b * c))],
                        [Fin (- c / (a * d - b * c)), Fin (a / (a * d - b * c))]])"
proof (cases "a = 0")
  case True
  then have "d \<noteq> 0" "b \<noteq> 0" "c \<noteq> 0" using assms by auto
  then show ?thesis using True by (simp add: inverse_2x2 gj2_swapped)
next
  case False
  then show ?thesis using assms(1) by (simp add: inverse_2x2 gj2_regular)
qed

text \<open>
  A matrix with zeros on its diagonal is regular as soon as \<open>b\<close> and \<open>c\<close> are not zero; the
  search for a pivot, which looks at the diagonal, finds none, and the result is all NaN.
\<close>

lemma inverse_2x2_pivot_bug:
  "inverse_m [[Fin 0, Fin b], [Fin c, Fin 0]] = Some (NonNull [[NaN, NaN], [NaN, NaN]])"
  by (simp add: inverse_2x2 gj2_def Let_def signed_inf_def sgn_if)


section \<open>\<open>getVanishingPoints\<close>\<close>

lemma vanishingPoint_finite:
  assumes "uvCenter c0 = [Fin o1x, Fin o1y]" "pointFromIndex c0 i = [Fin q1x, Fin q1y]"
    and "uvCenter c1 = [Fin o2x, Fin o2y]" "pointFromIndex c1 i = [Fin q2x, Fin q2y]"
  shows "vanishingPoint c0 c1 i =
         do {
           inverse' \<leftarrow> inverse_m [[Fin (o1x - q1x), Fin (- (o2x - q2x))],
                                   [Fin (o1y - q1y), Fin (- (o2y - q2y))]];
           mi \<leftarrow> deref inverse';
           Some (addition [Fin o1x, Fin o1y]
                  (scalarMultiplication [Fin (o1x - q1x), Fin (o1y - q1y)]
                     (jsget (transformVector mi [Fin (o2x - o1x), Fin (o2y - o1y)]) 0)))
         }"
  by (simp add: vanishingPoint_def assms subtraction_def upt2 jsget_simps isNaN_def js_sub_def Let_def)

text \<open>
  Outside the case of the two zero pivots, the point returned for directions that are not
  parallel is the intersection of the two rays, with \<open>(t, s)\<close> the solution of the system
  (in the exact arithmetic of the model; the program rounds).
\<close>

lemma vanishingPoint_regular:
  assumes "uvCenter c0 = [Fin o1x, Fin o1y]" "pointFromIndex c0 i = [Fin q1x, Fin q1y]"
    and "uvCenter c1 = [Fin o2x, Fin o2y]" "pointFromIndex c1 i = [Fin q2x, Fin q2y]"
    and "(o1x - q1x) * (o2y - q2y) \<noteq> (o1y - q1y) * (o2x - q2x)"
    and "o1x - q1x \<noteq> 0 \<or> o2y - q2y \<noteq> 0"
  shows "\<exists>t s. vanishingPoint c0 c1 i =
                 Some [Fin (o1x + t * (o1x - q1x)), Fin (o1y + t * (o1y - q1y))] \<and>
               o1x + t * (o1x - q1x) = o2x + s * (o2x - q2x) \<and>
               o1y + t * (o1y - q1y) = o2y + s * (o2y - q2y) \<and>
               (o1x - q1x) * t + (- (o2x - q2x)) * s = o2x - o1x \<and>
               (o1y - q1y) * t + (- (o2y - q2y)) * s = o2y - o1y"
proof -
  define a b c d where "a = o1x - q1x" and "b = - (o2x - q2x)" and "c = o1y - q1y" and "d = - (o2y - q2y)"
  define vx vy where "vx = o2x - o1x" and "vy = o2y - o1y"
  define D where "D = a * d - b * c"
  have D: "D \<noteq> 0" using assms(5) by (simp add: D_def a_def b_def c_def d_def algebra_simps)
  have ad: "a \<noteq> 0 \<or> d \<noteq> 0" using assms(6) by (auto simp: a_def d_def)
  define t s where "t = (d * vx - b * vy) / D" and "s = (a * vy - c * vx) / D"
  have inv: "inverse_m [[Fin a, Fin b], [Fin c, Fin d]] =
         Some (NonNull [[Fin (d / D), Fin (- b / D)], [Fin (- c / D), Fin (a / D)]])"
    unfolding D_def by (rule inverse_2x2_regular) (use D ad in \<open>simp_all add: D_def\<close>)
  have "vanishingPoint c0 c1 i = Some [Fin (o1x + t * a), Fin (o1y + t * c)]"
    unfolding vanishingPoint_finite [OF assms(1-4)]
    unfolding a_def [symmetric] b_def [symmetric] c_def [symmetric] d_def [symmetric]
      vx_def [symmetric] vy_def [symmetric] inv
    using D by (simp add: tv2 jsget_simps scalarMultiplication_def add2 t_def field_simps)
  moreover have "a * t + b * s = vx"
  proof -
    have "a * (d * vx - b * vy) + b * (a * vy - c * vx) = D * vx"
      by (simp add: D_def algebra_simps)
    moreover have "a * t + b * s = (a * (d * vx - b * vy) + b * (a * vy - c * vx)) / D"
      by (simp add: t_def s_def add_divide_distrib)
    ultimately show ?thesis using D by simp
  qed
  moreover have "c * t + d * s = vy"
  proof -
    have "c * (d * vx - b * vy) + d * (a * vy - c * vx) = D * vy"
      by (simp add: D_def algebra_simps)
    moreover have "c * t + d * s = (c * (d * vx - b * vy) + d * (a * vy - c * vx)) / D"
      by (simp add: t_def s_def add_divide_distrib)
    ultimately show ?thesis using D by simp
  qed
  ultimately show ?thesis
    unfolding a_def b_def c_def d_def vx_def vy_def
    by (intro exI [of _ t] exI [of _ s]) (simp add: algebra_simps)
qed



text \<open>
  C2. The claim is that for edge directions that are not parallel the returned point lies
  on both rays. For the corners below the directions of the first family are \<open>p1 = (0, 1)\<close>
  from \<open>o1 = (0, 0)\<close> and \<open>p2 = (1, 0)\<close> from \<open>o2 = (1, 1)\<close>: they are not parallel and the
  rays meet at \<open>(0, 1)\<close> (for \<open>t = 1\<close>, \<open>s = -1\<close>). The matrix of the system has zeros on
  its diagonal, the search for a pivot looks at the diagonal only, the inverse is all NaN,
  and the addition turns the NaN offset into zero: the point returned is \<open>o1 = (0, 0)\<close>,
  which is not on the second ray.
\<close>

theorem vanishing_point_zero_pivots:
  "getVanishingPoints pivot_corner0 pivot_corner1 = Some [[Fin 0, Fin 0], [Fin 1, Fin 0]] \<and>
   subtraction (uvCenter pivot_corner0) (pointFromIndex pivot_corner0 0) = [Fin 0, Fin 1] \<and>
   subtraction (uvCenter pivot_corner1) (pointFromIndex pivot_corner1 0) = [Fin 1, Fin 0] \<and>
   (0::real) * 0 \<noteq> 1 * 1 \<and>
   (0::real) + 1 * 0 = 1 + (- 1) * 1 \<and> (0::real) + 1 * 1 = 1 + (- 1) * 0 \<and>
   \<not> (\<exists>s::real. 0 = 1 + s * 1 \<and> 0 = 1 + s * 0)"
proof -
  have "getVanishingPoints pivot_corner0 pivot_corner1 = Some [[Fin 0, Fin 0], [Fin 1, Fin 0]]"
    by code_simp
  moreover have "subtraction (uvCenter pivot_corner0) (pointFromIndex pivot_corner0 0) = [Fin 0, Fin 1]"
    by code_simp
  moreover have "subtraction (uvCenter pivot_corner1) (pointFromIndex pivot_corner1 0) = [Fin 1, Fin 0]"
    by code_simp
  ultimately show ?thesis by simp
qed

lemma vanishingPoint_ok: "\<exists>vp. vanishingPoint c0 c1 i = Some vp"
  by (simp add: vanishingPoint_def Let_def inverse_2x2)

lemma getVanishingPoints_ok: "\<exists>vp0 vp1. getVanishingPoints c0 c1 = Some [vp0, vp1]"
proof -
  obtain vp0 where 0: "vanishingPoint c0 c1 0 = Some vp0" using vanishingPoint_ok by blast
  obtain vp1 where 1: "vanishingPoint c0 c1 (Suc 0) = Some vp1" using vanishingPoint_ok by blast
  show ?thesis by (simp add: getVanishingPoints_def 0 1)
qed


section \<open>\<open>getFocalLength\<close>\<close>

text \<open>
  C3, as stated: a negative radicand is clamped to zero, so that the focal length is \<open>0\<close>.
  It is not: for the vanishing points \<open>(1, 0)\<close> and \<open>(1, 0)\<close> the radicand is \<open>-1\<close> and the
  result is NaN.
\<close>

theorem getFocalLength_negative_radicand:
  "getFocalLength [[Fin 1, Fin 0], [Fin 1, Fin 0]] (Fin 36) = NaN \<and>
   - (1 * 1 + 0 * 0) < (0::real) \<and> NaN \<noteq> Fin 0"
  by (simp add: getFocalLength_def jsget_def js_sub_def)

text \<open>
  C3, amended. For vanishing points \<open>(x0, y0)\<close>, \<open>(x1, y1)\<close> and a sensor length \<open>s\<close>, all
  finite, the focal length is \<open>sqrt (-(x0 * x1 + y0 * y1)) / 2 * s\<close> when the radicand is
  not negative, and NaN when it is negative.
\<close>

theorem getFocalLength_formula:
  "getFocalLength [[Fin x0, Fin y0], [Fin x1, Fin y1]] (Fin s) =
     (if - (x0 * x1 + y0 * y1) < 0 then NaN
      else Fin (sqrt (- (x0 * x1 + y0 * y1)) / 2 * s))"
  by (simp add: getFocalLength_def jsget_def js_sub_def)

theorem getFocalLength_formula_witness:
  "getFocalLength [[Fin (- 1), Fin 0], [Fin 4, Fin 3]] (Fin 36) = Fin 36"
  using getFocalLength_formula [of "- 1" 0 4 3 36] by simp

section \<open>The beta candidates of \<open>getEulerRotation\<close>\<close>

lemma sin_less_self:
  fixes x :: real
  assumes "0 < x" "x < 2"
  shows "sin x < x"
proof -
  obtain t where t: "0 < t" "t < x"
    and eq: "sin x = (\<Sum>m<2. sin_coeff m * x ^ m) + (sin (t + 1 / 2 * real 2 * pi) / fact 2) * x ^ 2"
    using Maclaurin_sin_expansion3 [of 2 x] assms by auto
  have "0 < sin t" using t assms by (intro sin_gt_zero_02) auto
  moreover have "sin x = x - sin t / 2 * x ^ 2"
    using eq by (simp add: sin_coeff_def lessThan_Suc numeral_2_eq_2)
  ultimately show ?thesis using assms by simp
qed

lemma sin_less_arcsin:
  fixes x :: real
  assumes "0 < x" "x \<le> 1"
  shows "sin x < arcsin x"
proof -
  have "sin x < x" using assms by (intro sin_less_self) auto
  also have "x = sin (arcsin x)" using assms by simp
  also have "\<dots> \<le> arcsin x"
  proof (rule sin_x_le_x)
    have "arcsin 0 \<le> arcsin x" using assms by (intro arcsin_le_arcsin) auto
    then show "0 \<le> arcsin x" by simp
  qed
  finally show ?thesis .
qed

text \<open>
  C4. The claim is that the first beta candidate is minus the arc sine of \<open>m[2][0]\<close>. The
  code takes minus the sine: for the rotation by a quarter turn about the second axis,
  where \<open>m[2][0] = 1\<close>, the candidates are \<open>- sin 1\<close> and \<open>pi + sin 1\<close>, and \<open>- sin 1\<close> is
  not \<open>- arcsin 1\<close>.
\<close>

theorem betas_sine_for_arcsine:
  "betas [[Fin 0, Fin 0, Fin (- 1)], [Fin 0, Fin 1, Fin 0], [Fin 1, Fin 0, Fin 0]] =
     Some [Fin (- sin 1), Fin (pi + sin 1)] \<and>
   - sin (1::real) \<noteq> - arcsin 1"
proof -
  have "sin (1::real) < arcsin 1" by (rule sin_less_arcsin) simp_all
  then have "sin (1::real) \<noteq> pi / 2" by simp
  then show ?thesis
    by (simp add: betas_def melem_def mrow_def jsget_def js_sub_def)
qed

section \<open>The pipeline never throws\<close>

lemma fill_vector_ok:
  "\<forall>j \<in> set js. j < length B \<Longrightarrow> \<exists>w. fill_vector B i js vector = Some w"
  by (induction js arbitrary: vector) simp_all

lemma length_fold_mset2 [simp]:
  "length (fold (\<lambda>j result. mset2 result j i (f j)) js result) = length result"
  by (induction js arbitrary: result) simp_all

lemma multiplication_loop_ok:
  "m \<le> length B \<Longrightarrow> \<exists>C. multiplication_loop A B m n is result = Some C \<and> length C = length result"
proof (induction "is" arbitrary: result)
  case Nil
  then show ?case by simp
next
  case (Cons i "is")
  from Cons.prems obtain w where w: "fill_vector B i [0..<m] (replicate n NaN) = Some w"
    using fill_vector_ok [of "[0..<m]" B i "replicate n NaN"] by auto
  let ?r = "fold (\<lambda>j result. mset2 result j i (transformVector A w ! j)) [0..<m] result"
  from Cons.IH [OF Cons.prems, of ?r]
  obtain C where "multiplication_loop A B m n is ?r = Some C" "length C = length ?r" by blast
  then show ?case by (simp add: w Let_def)
qed

lemma multiplication_ok:
  assumes "B \<noteq> []" "length A \<le> length B"
  shows "\<exists>C. multiplication A B = Some C \<and> length C = length A"
proof -
  obtain r rs where B: "B = r # rs" using assms(1) by (cases B) auto
  show ?thesis
    using multiplication_loop_ok [OF assms(2), of A "length r" "[0..<length r]" "fromSize (length r) (length A) (Fin 0)"]
    by (simp add: multiplication_def matrix_n_def B fromSize_def Let_def)
qed

lemma rotation3D_ok:
  assumes "axis < 3"
  shows "\<exists>R. rotation3D axis r = Some R \<and> length R = 3 \<and> matrix_n R = Some 3"
proof -
  from assms consider "axis = 0" | "axis = Suc 0" | "axis = 2" by linarith
  then show ?thesis
    by cases (simp_all add: rotation3D_def fromSize_def mset2_def jsset_def rep3 Let_def matrix_n_def)
qed

lemma inverse_m_3:
  assumes "length M = 3" "matrix_n M = Some 3"
  shows "\<exists>N. inverse_m M = Some (NonNull N) \<and> length N = 3"
  using inverse_m_square [of M] assms by auto

lemma normalize3: "\<exists>x y z. normalize_v [a, b, c] = Some [x, y, z]"
  by (simp add: normalize_v_def Let_def)

lemma transpose_m_ok:
  "M \<noteq> [] \<Longrightarrow> \<exists>T. transpose_m M = Some T \<and> length T = length (M ! 0) \<and>
      (0 < length (M ! 0) \<longrightarrow> matrix_n T = Some (length M))"
  by (cases M) (auto simp: transpose_m_def matrix_n_def matrix_m_def upt_conv_Cons)

lemma getWorldTransform_ok:
  assumes "snd a1 \<noteq> snd a2"
  shows "\<exists>W. getWorldTransform a1 a2 v sl f = Some W \<and> length W = 3 \<and> matrix_n W = Some 3"
proof -
  let ?d = "js_mul (js_div f sl) (Fin 2)"
  obtain x1 y1 z1 where n1: "normalize_v [jsget (v ! 0) 0, jsget (v ! 0) (Suc 0), js_neg ?d] = Some [x1, y1, z1]"
    using normalize3 by blast
  obtain x2 y2 z2 where n2: "normalize_v [jsget (v ! Suc 0) 0, jsget (v ! Suc 0) (Suc 0), js_neg ?d] = Some [x2, y2, z2]"
    using normalize3 by blast
  show ?thesis
    using assms
    by (cases "snd a1"; cases "snd a2")
       (simp_all add: getWorldTransform_def Let_def n1 n2 scalarMultiplication_def upt3
          crossProduct_def transpose_m_def matrix_n_def matrix_m_def)
qed

lemma getLocation_ok:
  assumes "length W = 3" "matrix_n W = Some 3"
  shows "\<exists>loc. getLocation d orig sl f W = Some loc"
proof -
  obtain x y z where n: "normalize_v (projectPointLocalInverse sl f orig (Fin 1)) = Some [x, y, z]"
    unfolding projectPointLocalInverse_def Let_def using normalize3 by blast
  obtain N where N: "inverse_m W = Some (NonNull N)" using inverse_m_3 [OF assms] by blast
  then show ?thesis
    by (simp add: getLocation_def n Let_def)
qed

lemma squared_error_ok:
  "\<forall>p \<in> set rows. fst p < length m \<Longrightarrow> \<exists>e. squared_error m rows err = Some e"
  by (induction m rows err rule: squared_error.induct) (auto simp: mrow_def)

lemma melem_ok: "i < length m \<Longrightarrow> \<exists>x. melem m i j = Some x"
  by (simp add: melem_def mrow_def)

lemma candidate_ok:
  assumes "length M = 3"
  shows "\<exists>c. candidate M gamma beta = Some c"
proof -
  have ne: "X \<noteq> []" if "length X = 3" for X :: matrix using that by auto
  have M: "M \<noteq> []" using assms by auto
  obtain G where G: "rotation3D 2 gamma = Some G" "length G = 3" "matrix_n G = Some 3"
    using rotation3D_ok [of 2 gamma] by auto
  obtain B where B: "rotation3D 1 beta = Some B" "length B = 3" "matrix_n B = Some 3"
    using rotation3D_ok [of 1 beta] by auto
  obtain Bi where Bi: "inverse_m B = Some (NonNull Bi)" "length Bi = 3"
    using inverse_m_3 [OF B(2,3)] by blast
  obtain Gi where Gi: "inverse_m G = Some (NonNull Gi)" "length Gi = 3"
    using inverse_m_3 [OF G(2,3)] by blast
  obtain I where I: "multiplication Gi M = Some I" "length I = 3"
    using multiplication_ok [of M Gi] M assms Gi by auto
  obtain T where T: "multiplication Bi I = Some T" "length T = 3"
    using multiplication_ok [of I Bi] I Bi ne [of I] by auto
  obtain t21 where t21: "melem T 2 1 = Some t21" using melem_ok [of 2 T 1] T by auto
  obtain t11 where t11: "melem T 1 1 = Some t11" using melem_ok [of 1 T 1] T by auto
  obtain A where A: "rotation3D 0 (js_atan2 t21 t11) = Some A" "length A = 3"
    using rotation3D_ok [of 0 "js_atan2 t21 t11"] by auto
  obtain BA where BA: "multiplication B A = Some BA" "length BA = 3"
    using multiplication_ok [of A B] A B ne [of A] by auto
  obtain C where C: "multiplication G BA = Some C" "length C = 3"
    using multiplication_ok [of BA G] BA G ne [of BA] by auto
  have "\<forall>p \<in> set (enumerate 0 C). fst p < length M"
    using C assms by (auto simp: in_set_enumerate_eq)
  then obtain e where e: "squared_error M (enumerate 0 C) (Fin 0) = Some e"
    using squared_error_ok by blast
  show ?thesis
    by (simp add: candidate_def G B Bi Gi I T t21 t11 A BA C e Let_def del: One_nat_def)
qed

lemma getEulerRotation_ok:
  assumes "length W = 3" "matrix_n W = Some 3"
  shows "\<exists>angles. getEulerRotation W = Some angles"
proof -
  obtain N where N: "inverse_m W = Some (NonNull N)" "length N = 3"
    using inverse_m_3 [OF assms] by blast
  obtain gs where gs: "gammas N = Some gs" using N(2) by (simp add: gammas_def melem_def mrow_def Let_def)
  obtain bs where bs: "betas N = Some bs" using N(2) by (simp add: betas_def melem_def mrow_def Let_def)
  obtain a00 where a00: "candidate N (gs ! 0) (bs ! 0) = Some a00" using candidate_ok [OF N(2)] by blast
  obtain a01 where a01: "candidate N (gs ! 0) (bs ! 1) = Some a01" using candidate_ok [OF N(2)] by blast
  obtain a10 where a10: "candidate N (gs ! 1) (bs ! 0) = Some a10" using candidate_ok [OF N(2)] by blast
  obtain a11 where a11: "candidate N (gs ! 1) (bs ! 1) = Some a11" using candidate_ok [OF N(2)] by blast
  show ?thesis
    by (simp add: getEulerRotation_def N gs bs a00 a01 a10 a11 del: One_nat_def)
qed

lemma getBlender4x4Matrix_ok:
  assumes "length W = 3" "matrix_n W = Some 3"
  shows "\<exists>b. getBlender4x4Matrix W loc = Some b"
proof -
  obtain N where N: "inverse_m W = Some (NonNull N)" "length N = 3"
    using inverse_m_3 [OF assms] by blast
  then have "N \<noteq> []" by auto
  then obtain T where T: "transpose_m N = Some T" using transpose_m_ok by blast
  obtain T' where T': "transpose_m (T @ [loc]) = Some T'"
    using transpose_m_ok [of "T @ [loc]"] by auto
  show ?thesis by (simp add: getBlender4x4Matrix_def N T T' Let_def)
qed

section \<open>\<open>calculate\<close>\<close>

text \<open>
  \<open>calculate\<close> returns from every state and for every input. It assigns the vanishing
  points, the sensor length, the focal length and the field of view in every call. When
  the condition \<open>pose_gate\<close> holds it computes the pose from these and shows the panel;
  when it does not, it hides the panel and leaves the four fields of the pose as they
  were.
\<close>

lemma calculate_result:
  "\<exists>r. calculate inp old = Some r \<and>
       getVanishingPoints (corners0 inp) (corners1 inp) = Some (vanishingPoints r) \<and>
       sensorLength r = js_max (sensor_width inp) (sensor_height inp) \<and>
       focalLength r = getFocalLength (vanishingPoints r) (sensorLength r) \<and>
       fov r = js_mul (js_div (js_mul (Fin 2)
                 (js_atan (js_div (js_div (sensorLength r) (Fin 2)) (focalLength r)))) (Fin pi)) (Fin 180) \<and>
       results_hidden r = (\<not> pose_gate inp r) \<and>
       (pose_gate inp r \<longrightarrow>
          (\<exists>wt loc angles b.
             getWorldTransform (axis1 inp) (axis2 inp) (vanishingPoints r) (sensorLength r) (focalLength r) = Some wt \<and>
             getLocation (distance_to_origin inp) (origin inp) (sensorLength r) (focalLength r) wt = Some loc \<and>
             getEulerRotation wt = Some angles \<and>
             getBlender4x4Matrix wt loc = Some b \<and>
             worldTransform r = Some wt \<and> location r = Some loc \<and>
             eulerRotation r = Some (map (\<lambda>x. js_mul (js_div x (Fin pi)) (Fin 180)) angles) \<and>
             blender4x4Matrix r = Some b)) \<and>
       (\<not> pose_gate inp r \<longrightarrow>
          worldTransform r = worldTransform old \<and> location r = location old \<and>
          eulerRotation r = eulerRotation old \<and> blender4x4Matrix r = blender4x4Matrix old)"
proof -
  obtain vp0 vp1 where vps: "getVanishingPoints (corners0 inp) (corners1 inp) = Some [vp0, vp1]"
    using getVanishingPoints_ok by blast
  let ?sl = "js_max (sensor_width inp) (sensor_height inp)"
  let ?f = "getFocalLength [vp0, vp1] ?sl"
  show ?thesis
  proof (cases "truthy ?f \<and> snd (axis1 inp) \<noteq> snd (axis2 inp)")
    case True
    then obtain W where W: "getWorldTransform (axis1 inp) (axis2 inp) [vp0, vp1] ?sl ?f = Some W"
      "length W = 3" "matrix_n W = Some 3"
      using getWorldTransform_ok by blast
    obtain loc where loc: "getLocation (distance_to_origin inp) (origin inp) ?sl ?f W = Some loc"
      using getLocation_ok [OF W(2,3)] by blast
    obtain angles where angles: "getEulerRotation W = Some angles"
      using getEulerRotation_ok [OF W(2,3)] by blast
    obtain b where b: "getBlender4x4Matrix W loc = Some b"
      using getBlender4x4Matrix_ok [OF W(2,3)] by blast
    show ?thesis
      using True by (simp add: calculate_def vps Let_def W loc angles b pose_gate_def)
  next
    case False
    then show ?thesis
      by (auto simp add: calculate_def vps Let_def pose_gate_def)
  qed
qed

lemma calculate_fields:
  assumes "calculate inp old = Some r"
  shows "getVanishingPoints (corners0 inp) (corners1 inp) = Some (vanishingPoints r)"
    and "sensorLength r = js_max (sensor_width inp) (sensor_height inp)"
    and "focalLength r = getFocalLength (vanishingPoints r) (sensorLength r)"
    and "fov r = js_mul (js_div (js_mul (Fin 2)
                 (js_atan (js_div (js_div (sensorLength r) (Fin 2)) (focalLength r)))) (Fin pi)) (Fin 180)"
    and "results_hidden r = (\<not> pose_gate inp r)"
    and "pose_gate inp r \<Longrightarrow>
           \<exists>wt loc angles b.
             getWorldTransform (axis1 inp) (axis2 inp) (vanishingPoints r) (sensorLength r) (focalLength r) = Some wt \<and>
             getLocation (distance_to_origin inp) (origin inp) (sensorLength r) (focalLength r) wt = Some loc \<and>
             getEulerRotation wt = Some angles \<and>
             getBlender4x4Matrix wt loc = Some b \<and>
             worldTransform r = Some wt \<and> location r = Some loc \<and>
             eulerRotation r = Some (map (\<lambda>x. js_mul (js_div x (Fin pi)) (Fin 180)) angles) \<and>
             blender4x4Matrix r = Some b"
    and "\<not> pose_gate inp r \<Longrightarrow>
           worldTransform r = worldTransform old \<and> location r = location old \<and>
           eulerRotation r = eulerRotation old \<and> blender4x4Matrix r = blender4x4Matrix old"
proof -
  from calculate_result [of inp old] obtain r' where r': "calculate inp old = Some r'"
    and *: "getVanishingPoints (corners0 inp) (corners1 inp) = Some (vanishingPoints r')"
     "sensorLength r' = js_max (sensor_width inp) (sensor_height inp)"
     "focalLength r' = getFocalLength (vanishingPoints r') (sensorLength r')"
     "fov r' = js_mul (js_div (js_mul (Fin 2)
                 (js_atan (js_div (js_div (sensorLength r') (Fin 2)) (focalLength r')))) (Fin pi)) (Fin 180)"
     "results_hidden r' = (\<not> pose_gate inp r')"
    and p: "pose_gate inp r' \<longrightarrow>
          (\<exists>wt loc angles b.
             getWorldTransform (axis1 inp) (axis2 inp) (vanishingPoints r') (sensorLength r') (focalLength r') = Some wt \<and>
             getLocation (distance_to_origin inp) (origin inp) (sensorLength r') (focalLength r') wt = Some loc \<and>
             getEulerRotation wt = Some angles \<and>
             getBlender4x4Matrix wt loc = Some b \<and>
             worldTransform r' = Some wt \<and> location r' = Some loc \<and>
             eulerRotation r' = Some (map (\<lambda>x. js_mul (js_div x (Fin pi)) (Fin 180)) angles) \<and>
             blender4x4Matrix r' = Some b)"
    and q: "\<not> pose_gate inp r' \<longrightarrow>
          worldTransform r' = worldTransform old \<and> location r' = location old \<and>
          eulerRotation r' = eulerRotation old \<and> blender4x4Matrix r' = blender4x4Matrix old"
    by (elim exE conjE)
  from r' assms have eq: "r' = r" by simp
  from * show "getVanishingPoints (corners0 inp) (corners1 inp) = Some (vanishingPoints r)"
    and "sensorLength r = js_max (sensor_width inp) (sensor_height inp)"
    and "focalLength r = getFocalLength (vanishingPoints r) (sensorLength r)"
    and "fov r = js_mul (js_div (js_mul (Fin 2)
                 (js_atan (js_div (js_div (sensorLength r) (Fin 2)) (focalLength r)))) (Fin pi)) (Fin 180)"
    and "results_hidden r = (\<not> pose_gate inp r)"
    unfolding eq by blast+
  show "\<exists>wt loc angles b.
             getWorldTransform (axis1 inp) (axis2 inp) (vanishingPoints r) (sensorLength r) (focalLength r) = Some wt \<and>
             getLocation (distance_to_origin inp) (origin inp) (sensorLength r) (focalLength r) wt = Some loc \<and>
             getEulerRotation wt = Some angles \<and>
             getBlender4x4Matrix wt loc = Some b \<and>
             worldTransform r = Some wt \<and> location r = Some loc \<and>
             eulerRotation r = Some (map (\<lambda>x. js_mul (js_div x (Fin pi)) (Fin 180)) angles) \<and>
             blender4x4Matrix r = Some b" if "pose_gate inp r"
    using p that unfolding eq by (rule mp)
  show "worldTransform r = worldTransform old \<and> location r = location old \<and>
           eulerRotation r = eulerRotation old \<and> blender4x4Matrix r = blender4x4Matrix old"
    if "\<not> pose_gate inp r"
    using q that unfolding eq by blast
qed

lemma calculate_ok: "\<exists>r. calculate inp old = Some r"
  using calculate_result [of inp old] by (elim exE conjE) (rule exI)

lemma calculate_pose:
  assumes "calculate inp old = Some r" "pose_gate inp r"
  shows "worldTransform r \<noteq> None" "location r \<noteq> None" "eulerRotation r \<noteq> None"
proof -
  from calculate_fields(6) [OF assms] obtain wt loc angles
    where "worldTransform r = Some wt" "location r = Some loc"
      "eulerRotation r = Some (map (\<lambda>x. js_mul (js_div x (Fin pi)) (Fin 180)) angles)"
    by (elim exE conjE)
  then show "worldTransform r \<noteq> None" "location r \<noteq> None" "eulerRotation r \<noteq> None"
    by simp_all
qed

lemma fixture_points:
  "getVanishingPoints (corners0 fixture) (corners1 fixture) = Some [[Fin (- 1), Fin 0], [Fin 4, Fin 3]]"
  by code_simp

lemma fixture_result:
  "\<exists>r. calculate fixture old = Some r \<and> vanishingPoints r = [[Fin (- 1), Fin 0], [Fin 4, Fin 3]] \<and>
       sensorLength r = Fin 36 \<and> focalLength r = Fin 36"
proof -
  obtain r where r: "calculate fixture old = Some r" using calculate_ok by blast
  have v: "vanishingPoints r = [[Fin (- 1), Fin 0], [Fin 4, Fin 3]]"
    using calculate_fields(1) [OF r] fixture_points by simp
  have s: "sensorLength r = Fin 36"
    unfolding calculate_fields(2) [OF r] by (simp add: fixture_def js_max_def)
  have "focalLength r = Fin 36"
    unfolding calculate_fields(3) [OF r] v s by (simp add: getFocalLength_def jsget_def js_sub_def)
  with r v s show ?thesis by blast
qed

lemma orthogonal_points:
  "getVanishingPoints (corners0 orthogonal_input) (corners1 orthogonal_input) =
     Some [[Fin 1, Fin 0], [Fin 0, Fin 1]]"
  by code_simp

lemma orthogonal_result:
  "\<exists>r. calculate orthogonal_input old = Some r \<and> focalLength r = Fin 0 \<and>
       \<not> pose_gate orthogonal_input r"
proof -
  obtain r where r: "calculate orthogonal_input old = Some r" using calculate_ok by blast
  have v: "vanishingPoints r = [[Fin 1, Fin 0], [Fin 0, Fin 1]]"
    using calculate_fields(1) [OF r] orthogonal_points by simp
  have s: "sensorLength r = Fin 36"
    unfolding calculate_fields(2) [OF r] by (simp add: orthogonal_input_def js_max_def)
  have f: "focalLength r = Fin 0"
    unfolding calculate_fields(3) [OF r] v s by (simp add: getFocalLength_def jsget_def js_sub_def)
  then have "\<not> pose_gate orthogonal_input r" by (simp add: pose_gate_def truthy_def)
  with r f show ?thesis by blast
qed


text \<open>
  A pose that an earlier call has computed stays in the object when a later call
  computes none: after \<open>calculate\<close> on \<open>fixture\<close>, a call on an input with the focal
  length \<open>0\<close> hides the panel and leaves the world transform of the first call in place.
\<close>

lemma earlier_pose_stays:
  "\<exists>r1 r2. calculate fixture calcResults_init = Some r1 \<and> calculate orthogonal_input r1 = Some r2 \<and>
           focalLength r2 = Fin 0 \<and> results_hidden r2 \<and>
           worldTransform r2 = worldTransform r1 \<and> worldTransform r2 \<noteq> None"
proof -
  obtain r1 where r1: "calculate fixture calcResults_init = Some r1" "focalLength r1 = Fin 36"
    using fixture_result by blast
  have "pose_gate fixture r1" by (simp add: pose_gate_def r1(2) truthy_def fixture_def)
  from calculate_pose(1) [OF r1(1) this] have w1: "worldTransform r1 \<noteq> None" .
  obtain r2 where r2: "calculate orthogonal_input r1 = Some r2" "focalLength r2 = Fin 0"
    "\<not> pose_gate orthogonal_input r2"
    using orthogonal_result by blast
  from calculate_fields(7) [OF r2(1) r2(3)] have "worldTransform r2 = worldTransform r1" by simp
  moreover have "results_hidden r2" using calculate_fields(5) [OF r2(1)] r2(3) by simp
  ultimately show ?thesis using r1(1) r2(1,2) w1 by auto
qed




text \<open>
  C7, as stated: the field of view is \<open>2 * atan (s / (2 * f))\<close> in radians. At \<open>f = 36\<close>,
  \<open>s = 36\<close> the result is not that number.
\<close>

theorem fov_not_radians:
  "\<exists>r. calculate fixture calcResults_init = Some r \<and> focalLength r = Fin 36 \<and> sensorLength r = Fin 36 \<and>
       fov r \<noteq> Fin (2 * arctan (36 / (2 * 36)))"
proof -
  obtain r where r: "calculate fixture calcResults_init = Some r" "sensorLength r = Fin 36" "focalLength r = Fin 36"
    using fixture_result by blast
  have f: "fov r = Fin (2 * arctan (1 / 2) / pi * 180)"
    unfolding calculate_fields(4) [OF r(1)] r(2) r(3) by simp
  have "0 < arctan (1 / 2 :: real)" by simp
  moreover have "pi < 180" using pi_less_4 by simp
  ultimately have "2 * arctan (1 / 2) / pi * 180 \<noteq> 2 * arctan (1 / 2 :: real)"
    by (simp add: field_simps)
  with f have "fov r \<noteq> Fin (2 * arctan (36 / (2 * 36)))" by simp
  with r show ?thesis by blast
qed

text \<open>
  C7, amended. For a focal length \<open>f > 0\<close> and a finite sensor length \<open>s\<close>, the field of
  view in the result is \<open>2 * atan (s / (2 * f))\<close> converted to degrees, that is multiplied
  by \<open>180 / pi\<close>, whatever the earlier calls left in the object.
\<close>

theorem calculate_fov_degrees:
  assumes "calculate inp old = Some r" "focalLength r = Fin f" "0 < f" "sensorLength r = Fin s"
  shows "fov r = Fin (2 * arctan (s / (2 * f)) / pi * 180)"
  unfolding calculate_fields(4) [OF assms(1)] assms(2) assms(4) using assms(3) by simp

text \<open>C7, amended, at an input with \<open>f = 36\<close> and \<open>s = 36\<close>.\<close>

theorem calculate_fov_degrees_witness:
  "\<exists>r. calculate fixture calcResults_init = Some r \<and> fov r = Fin (2 * arctan (36 / (2 * 36)) / pi * 180)"
proof -
  obtain r where r: "calculate fixture calcResults_init = Some r" "sensorLength r = Fin 36" "focalLength r = Fin 36"
    using fixture_result by blast
  have "fov r = Fin (2 * arctan (36 / (2 * 36)) / pi * 180)"
    by (rule calculate_fov_degrees [OF r(1) r(3) _ r(2)]) simp
  with r(1) show ?thesis by blast
qed




end
